theory Spec2Isabelle
  imports Main "HOL-Library.Word"
begin

unbundle bit_operations_syntax

section \<open>Wire messages and graph records\<close>

text \<open>
  The data of \<^verbatim>\<open>discovery/gossiper.go\<close>. Keys and signatures come from the
  btcec library: a public key is identified by its compressed serialization (the
  gossiper compares keys with \<^verbatim>\<open>bytes.Equal\<close> on \<^verbatim>\<open>SerializeCompressed()\<close> and
  builds a \<^verbatim>\<open>routing.Vertex\<close> from it), a signature by its pair of integers.
\<close>

datatype PublicKey = PublicKey (SerializeCompressed: "8 word list")

datatype Signature = Signature (R: int) (S: int)

type_synonym Hash = "8 word list"

type_synonym Vertex = "8 word list"

definition NewVertex :: "PublicKey \<Rightarrow> Vertex" where
  "NewVertex pub = SerializeCompressed pub"

record ShortChannelID =
  BlockHeight :: "32 word"
  TxIndex :: "32 word"
  TxPosition :: "16 word"

record ChannelAnnouncement =
  ca_NodeSig1 :: Signature
  ca_NodeSig2 :: Signature
  ca_BitcoinSig1 :: Signature
  ca_BitcoinSig2 :: Signature
  ca_Features :: "8 word list"
  ca_ChainHash :: Hash
  ca_ShortChannelID :: ShortChannelID
  ca_NodeID1 :: PublicKey
  ca_NodeID2 :: PublicKey
  ca_BitcoinKey1 :: PublicKey
  ca_BitcoinKey2 :: PublicKey

record ChannelUpdate =
  cu_Signature :: Signature
  cu_ChainHash :: Hash
  cu_ShortChannelID :: ShortChannelID
  cu_Timestamp :: "32 word"
  cu_Flags :: "16 word"
  cu_TimeLockDelta :: "16 word"
  cu_HtlcMinimumMsat :: "64 word"
  cu_BaseFee :: "32 word"
  cu_FeeRate :: "32 word"

record NodeAnnouncement =
  na_Signature :: Signature
  na_Features :: "8 word list"
  na_Timestamp :: "32 word"
  na_NodeID :: PublicKey
  na_Alias :: string
  na_Addresses :: "string list"

record AnnounceSignatures =
  as_ChannelID :: Hash
  as_ShortChannelID :: ShortChannelID
  as_NodeSignature :: Signature
  as_BitcoinSignature :: Signature

text \<open>
  \<^verbatim>\<open>lnwire.Message\<close> is an interface; the gossiper switches on four of its
  implementations, every other message type reaches the \<^verbatim>\<open>default\<close> branch.
\<close>

datatype Message =
    MsgChannelAnnouncement ChannelAnnouncement
  | MsgChannelUpdate ChannelUpdate
  | MsgNodeAnnouncement NodeAnnouncement
  | MsgAnnounceSignatures AnnounceSignatures
  | MsgOther nat

section \<open>The de-duplicating announcement batch\<close>

record channelUpdateID =
  channelID :: ShortChannelID
  flags :: "16 word"

record deDupedAnnouncements =
  channelAnnouncements :: "ShortChannelID \<rightharpoonup> Message"
  channelUpdates :: "channelUpdateID \<rightharpoonup> Message"
  nodeAnnouncements :: "Vertex \<rightharpoonup> Message"

text \<open>\<^verbatim>\<open>reset\<close> replaces the three maps by fresh empty ones.\<close>

definition reset :: "deDupedAnnouncements \<Rightarrow> deDupedAnnouncements" where
  "reset d = d\<lparr>channelAnnouncements := Map.empty,
               channelUpdates := Map.empty,
               nodeAnnouncements := Map.empty\<rparr>"

text \<open>
  \<^verbatim>\<open>addMsg\<close>: a type switch with three cases; a message of any other type is
  not stored.
\<close>

fun addMsg :: "Message \<Rightarrow> deDupedAnnouncements \<Rightarrow> deDupedAnnouncements" where
  "addMsg (MsgChannelAnnouncement msg) d =
     d\<lparr>channelAnnouncements :=
         (channelAnnouncements d)(ca_ShortChannelID msg \<mapsto> MsgChannelAnnouncement msg)\<rparr>"
| "addMsg (MsgChannelUpdate msg) d =
     d\<lparr>channelUpdates :=
         (channelUpdates d)
           (\<lparr>channelID = cu_ShortChannelID msg, flags = cu_Flags msg\<rparr> \<mapsto> MsgChannelUpdate msg)\<rparr>"
| "addMsg (MsgNodeAnnouncement msg) d =
     d\<lparr>nodeAnnouncements :=
         (nodeAnnouncements d)(NewVertex (na_NodeID msg) \<mapsto> MsgNodeAnnouncement msg)\<rparr>"
| "addMsg _ d = d"

text \<open>\<^verbatim>\<open>AddMsgs\<close>: the loop \<^verbatim>\<open>for _, msg := range msgs { d.addMsg(msg) }\<close>.\<close>

fun AddMsgs :: "Message list \<Rightarrow> deDupedAnnouncements \<Rightarrow> deDupedAnnouncements" where
  "AddMsgs [] d = d"
| "AddMsgs (msg # msgs) d = AddMsgs msgs (addMsg msg d)"

text \<open>
  Go visits the entries of a map in an order the runtime chooses. The order of one
  \<^verbatim>\<open>range\<close> loop is an input of the model: a list of keys. \<open>rangeOrder\<close> says that
  the list is an order the runtime can choose (every key of the map once);
  \<open>rangeValues\<close> is the sequence of values the loop then sees.
\<close>

definition rangeValues :: "'k list \<Rightarrow> ('k \<rightharpoonup> 'v) \<Rightarrow> 'v list" where
  "rangeValues order m = List.map_filter m order"

definition rangeOrder :: "'k list \<Rightarrow> ('k \<rightharpoonup> 'v) \<Rightarrow> bool" where
  "rangeOrder order m = (distinct order \<and> set order = dom m)"

record emitOrder =
  caOrder :: "ShortChannelID list"
  cuOrder :: "channelUpdateID list"
  naOrder :: "Vertex list"

text \<open>
  \<^verbatim>\<open>Emit\<close>: append the channel announcements, then the channel updates, then the
  node announcements, reset the maps, return the slice.
\<close>

definition Emit :: "emitOrder \<Rightarrow> deDupedAnnouncements \<Rightarrow> Message list \<times> deDupedAnnouncements" where
  "Emit ord d =
     (let announcements = [];
          announcements = announcements @ rangeValues (caOrder ord) (channelAnnouncements d);
          announcements = announcements @ rangeValues (cuOrder ord) (channelUpdates d);
          announcements = announcements @ rangeValues (naOrder ord) (nodeAnnouncements d)
      in (announcements, reset d))"

text \<open>
  The key under which \<^verbatim>\<open>addMsg\<close> files a message, and the entry of a batch
  under such a key. \<open>numAnnouncements\<close> is the count computed at the head of
  \<^verbatim>\<open>Emit\<close>.
\<close>

datatype batchKey =
    ChanAnnKey ShortChannelID
  | ChanUpdKey channelUpdateID
  | NodeAnnKey Vertex

fun msgKey :: "Message \<Rightarrow> batchKey option" where
  "msgKey (MsgChannelAnnouncement msg) = Some (ChanAnnKey (ca_ShortChannelID msg))"
| "msgKey (MsgChannelUpdate msg) =
     Some (ChanUpdKey \<lparr>channelID = cu_ShortChannelID msg, flags = cu_Flags msg\<rparr>)"
| "msgKey (MsgNodeAnnouncement msg) = Some (NodeAnnKey (NewVertex (na_NodeID msg)))"
| "msgKey _ = None"

fun batchEntry :: "deDupedAnnouncements \<Rightarrow> batchKey \<Rightarrow> Message option" where
  "batchEntry d (ChanAnnKey k) = channelAnnouncements d k"
| "batchEntry d (ChanUpdKey k) = channelUpdates d k"
| "batchEntry d (NodeAnnKey k) = nodeAnnouncements d k"

definition numAnnouncements :: "deDupedAnnouncements \<Rightarrow> nat" where
  "numAnnouncements d =
     card (dom (channelAnnouncements d)) + card (dom (channelUpdates d)) +
     card (dom (nodeAnnouncements d))"

text \<open>The position of a message type in an emitted batch.\<close>

fun msgRank :: "Message \<Rightarrow> nat" where
  "msgRank (MsgChannelAnnouncement _) = 0"
| "msgRank (MsgChannelUpdate _) = 1"
| "msgRank (MsgNodeAnnouncement _) = 2"
| "msgRank _ = 3"

section \<open>The gossiper and its collaborators\<close>

record ChannelAuthProof =
  NodeSig1 :: Signature
  NodeSig2 :: Signature
  BitcoinSig1 :: Signature
  BitcoinSig2 :: Signature

record ChannelEdgeInfo =
  ChannelID :: "64 word"
  info_ChainHash :: Hash
  NodeKey1 :: PublicKey
  NodeKey2 :: PublicKey
  BitcoinKey1 :: PublicKey
  BitcoinKey2 :: PublicKey
  AuthProof :: "ChannelAuthProof option"
  info_Features :: "8 word list"

record ChannelEdgePolicy =
  ep_Signature :: Signature
  ep_ChannelID :: "64 word"
  ep_LastUpdate :: int
  ep_Flags :: "16 word"
  ep_TimeLockDelta :: "16 word"
  MinHTLC :: "64 word"
  FeeBaseMSat :: "64 word"
  FeeProportionalMillionths :: "64 word"

record LightningNode =
  HaveNodeAnnouncement :: bool
  ln_LastUpdate :: int
  ln_Addresses :: "string list"
  PubKey :: PublicKey
  ln_Alias :: string
  AuthSig :: Signature
  ln_Features :: "8 word list"

text \<open>
  \<^verbatim>\<open>networkMsg\<close>: the envelope. \<open>err\<close> names the envelope's result channel
  (\<^verbatim>\<open>chan error\<close>, made by \<^verbatim>\<open>ProcessRemoteAnnouncement\<close> and
  \<^verbatim>\<open>ProcessLocalAnnouncement\<close>).
\<close>

record networkMsg =
  peer :: PublicKey
  msg :: Message
  isRemote :: bool
  err :: nat

text \<open>
  Modelled from the spec: \<^verbatim>\<open>channeldb.WaitingProof\<close>, its keys and the
  \<^verbatim>\<open>channeldb.WaitingProofStore\<close> are not among the sources. The spec: a waiting proof
  record is (channel id, origin, node signature, chain signature); the opposite key is
  the same channel id with the origin inverted; the store holds at most one record per
  (channel id, origin) pair.
\<close>

record WaitingProof =
  wp_AnnounceSignatures :: AnnounceSignatures
  wp_isRemote :: bool

type_synonym WaitingProofKey = "64 word \<times> bool"

definition NewWaitingProof :: "bool \<Rightarrow> AnnounceSignatures \<Rightarrow> WaitingProof" where
  "NewWaitingProof remote proof = \<lparr>wp_AnnounceSignatures = proof, wp_isRemote = remote\<rparr>"

datatype error =
    ErrOutdated
  | ErrIgnored
  | ErrWaitingProofNotFound
  | ErrExternal nat
  | UnableToValidateNodeAnn error
  | UnableToValidateAnnouncement error
  | UnableToValidateChannelUpdate "64 word" error
  | UnknownFlags "16 word" "64 word"
  | UnableToValidateChannelUpdateAnn ShortChannelID error
  | UnableToStoreProof "64 word" error
  | NotChannelPeer "64 word"
  | UnableToGetOppositeProof "64 word" error
  | ProofNotValid "64 word" error
  | UnableToAddProof Hash error
  | UnableToRemoveOppositeProof Hash error
  | WrongAnnouncementType

text \<open>
  Every call the gossiper makes to a collaborator, and every send on a result channel,
  is recorded in order. \<open>ErrChanSend c e\<close> is \<^verbatim>\<open>nMsg.err <- e\<close> on the channel
  \<open>c\<close>, with \<open>None\<close> for \<^verbatim>\<open>nil\<close>.
\<close>

datatype event =
    ValidateNodeAnnCall NodeAnnouncement
  | ValidateChannelAnnCall ChannelAnnouncement
  | ValidateChannelUpdateAnnCall PublicKey ChannelUpdate
  | AddNodeCall LightningNode
  | AddEdgeCall ChannelEdgeInfo
  | UpdateEdgeCall ChannelEdgePolicy
  | AddProofCall ShortChannelID ChannelAuthProof
  | GetChannelByIDCall ShortChannelID
  | SendToPeerCall PublicKey "Message list"
  | BroadcastCall "Message list"
  | ProofAddCall WaitingProof
  | ProofGetCall WaitingProofKey
  | ProofRemoveCall WaitingProofKey
  | ErrChanSend nat "error option"

text \<open>
  \<^verbatim>\<open>Config\<close>. The router, the broadcast function and the database are outside the
  gossiper: what each call returns is a parameter, a function of the calls made so far and
  of the call's arguments. \<open>DB_Add\<close>, \<open>DB_Get\<close> and \<open>DB_Remove\<close> give the
  failure, if any, of the database under the waiting proof store. The result of
  \<^verbatim>\<open>SendToPeer\<close> is only logged by the gossiper, so it has no parameter.
\<close>

record Config =
  ChainHash :: Hash
  ProofMatureDelta :: "32 word"
  Router_AddNode :: "event list \<Rightarrow> LightningNode \<Rightarrow> error option"
  Router_AddEdge :: "event list \<Rightarrow> ChannelEdgeInfo \<Rightarrow> error option"
  Router_UpdateEdge :: "event list \<Rightarrow> ChannelEdgePolicy \<Rightarrow> error option"
  Router_AddProof :: "event list \<Rightarrow> ShortChannelID \<Rightarrow> ChannelAuthProof \<Rightarrow> error option"
  Router_GetChannelByID :: "event list \<Rightarrow> ShortChannelID \<Rightarrow>
     error + (ChannelEdgeInfo \<times> ChannelEdgePolicy option \<times> ChannelEdgePolicy option)"
  Broadcast :: "event list \<Rightarrow> Message list \<Rightarrow> error option"
  DB_Add :: "event list \<Rightarrow> WaitingProof \<Rightarrow> error option"
  DB_Get :: "event list \<Rightarrow> WaitingProofKey \<Rightarrow> error option"
  DB_Remove :: "event list \<Rightarrow> WaitingProofKey \<Rightarrow> error option"

text \<open>
  Functions of this repository that the gossiper calls and that are not among the sources
  (the signature checks of the discovery package, \<^verbatim>\<open>createChanAnnouncement\<close>, and
  \<^verbatim>\<open>ShortChannelID.ToUint64\<close> and \<^verbatim>\<open>RawFeatureVector.Encode\<close> of lnwire): parameters.
\<close>

record Imports =
  validateNodeAnn :: "NodeAnnouncement \<Rightarrow> error option"
  validateChannelAnn :: "ChannelAnnouncement \<Rightarrow> error option"
  validateChannelUpdateAnn :: "PublicKey \<Rightarrow> ChannelUpdate \<Rightarrow> error option"
  createChanAnnouncement :: "ChannelAuthProof \<Rightarrow> ChannelEdgeInfo \<Rightarrow>
     ChannelEdgePolicy option \<Rightarrow> ChannelEdgePolicy option \<Rightarrow>
     ChannelAnnouncement \<times> ChannelUpdate option \<times> ChannelUpdate option"
  ToUint64 :: "ShortChannelID \<Rightarrow> 64 word"
  Features_Encode :: "8 word list \<Rightarrow> error + 8 word list"

text \<open>
  \<^verbatim>\<open>AuthenticatedGossiper\<close>: the fields \<^verbatim>\<open>processNetworkAnnouncement\<close> and the
  block epoch case of \<^verbatim>\<open>networkHandler\<close> read and write, and the record of calls.
\<close>

record AuthenticatedGossiper =
  bestHeight :: "32 word"
  prematureAnnouncements :: "32 word \<rightharpoonup> networkMsg list"
  waitingProofs :: "WaitingProofKey \<rightharpoonup> WaitingProof"
  history :: "event list"

definition logCall :: "event \<Rightarrow> AuthenticatedGossiper \<Rightarrow> AuthenticatedGossiper" where
  "logCall e d = d\<lparr>history := history d @ [e]\<rparr>"

definition errSend :: "networkMsg \<Rightarrow> error option \<Rightarrow> AuthenticatedGossiper \<Rightarrow> AuthenticatedGossiper" where
  "errSend nMsg e d = logCall (ErrChanSend (err nMsg) e) d"

text \<open>
  Modelled from the spec: the keys of a waiting proof (\<^verbatim>\<open>Key\<close>, \<^verbatim>\<open>OppositeKey\<close>)
  and the store's \<^verbatim>\<open>Add\<close>, \<^verbatim>\<open>Get\<close> and \<^verbatim>\<open>Remove\<close>, which are not among the
  sources: a map with one record per (channel id, origin) pair. \<^verbatim>\<open>Get\<close> of an absent
  key is \<^verbatim>\<open>ErrWaitingProofNotFound\<close>, the error the gossiper tests for.
\<close>

definition Key :: "Imports \<Rightarrow> WaitingProof \<Rightarrow> WaitingProofKey" where
  "Key imp p = (ToUint64 imp (as_ShortChannelID (wp_AnnounceSignatures p)), wp_isRemote p)"

definition OppositeKey :: "Imports \<Rightarrow> WaitingProof \<Rightarrow> WaitingProofKey" where
  "OppositeKey imp p = (ToUint64 imp (as_ShortChannelID (wp_AnnounceSignatures p)), \<not> wp_isRemote p)"

definition waitingProofs_Add ::
  "Config \<Rightarrow> Imports \<Rightarrow> WaitingProof \<Rightarrow> AuthenticatedGossiper \<Rightarrow> error option \<times> AuthenticatedGossiper" where
  "waitingProofs_Add cfg imp p d =
     (case DB_Add cfg (history d) p of
        Some e \<Rightarrow> (Some e, logCall (ProofAddCall p) d)
      | None \<Rightarrow>
          (None, logCall (ProofAddCall p)
                   (d\<lparr>waitingProofs := (waitingProofs d)(Key imp p \<mapsto> p)\<rparr>)))"

definition waitingProofs_Get ::
  "Config \<Rightarrow> WaitingProofKey \<Rightarrow> AuthenticatedGossiper \<Rightarrow> (error + WaitingProof) \<times> AuthenticatedGossiper" where
  "waitingProofs_Get cfg key d =
     (case DB_Get cfg (history d) key of
        Some e \<Rightarrow> (Inl e, logCall (ProofGetCall key) d)
      | None \<Rightarrow>
          (case waitingProofs d key of
             None \<Rightarrow> (Inl ErrWaitingProofNotFound, logCall (ProofGetCall key) d)
           | Some p \<Rightarrow> (Inr p, logCall (ProofGetCall key) d)))"

definition waitingProofs_Remove ::
  "Config \<Rightarrow> WaitingProofKey \<Rightarrow> AuthenticatedGossiper \<Rightarrow> error option \<times> AuthenticatedGossiper" where
  "waitingProofs_Remove cfg key d =
     (case DB_Remove cfg (history d) key of
        Some e \<Rightarrow> (Some e, logCall (ProofRemoveCall key) d)
      | None \<Rightarrow>
          (None, logCall (ProofRemoveCall key)
                   (d\<lparr>waitingProofs := (waitingProofs d)(key := None)\<rparr>)))"

section \<open>processNetworkAnnouncement\<close>

text \<open>
  The closure \<^verbatim>\<open>isPremature\<close>: \<^verbatim>\<open>chanID.BlockHeight+delta > bestHeight\<close> on
  \<^verbatim>\<open>uint32\<close>, so the sum wraps around.
\<close>

definition isPremature :: "AuthenticatedGossiper \<Rightarrow> ShortChannelID \<Rightarrow> 32 word \<Rightarrow> bool" where
  "isPremature d chanID delta = (BlockHeight chanID + delta > bestHeight d)"

text \<open>
  Reading a key the map does not hold gives the nil slice;
  \<^verbatim>\<open>d.prematureAnnouncements[h] = append(d.prematureAnnouncements[h], nMsg)\<close>.
\<close>

definition prematureAt :: "AuthenticatedGossiper \<Rightarrow> 32 word \<Rightarrow> networkMsg list" where
  "prematureAt d h = (case prematureAnnouncements d h of None \<Rightarrow> [] | Some anns \<Rightarrow> anns)"

definition appendPremature :: "32 word \<Rightarrow> networkMsg \<Rightarrow> AuthenticatedGossiper \<Rightarrow> AuthenticatedGossiper" where
  "appendPremature h nMsg d =
     d\<lparr>prematureAnnouncements := (prematureAnnouncements d)(h \<mapsto> prematureAt d h @ [nMsg])\<rparr>"

text \<open>The case \<^verbatim>\<open>*lnwire.NodeAnnouncement\<close>.\<close>

definition processNodeAnnouncement ::
  "Config \<Rightarrow> Imports \<Rightarrow> networkMsg \<Rightarrow> NodeAnnouncement \<Rightarrow> AuthenticatedGossiper \<Rightarrow>
   Message list \<times> AuthenticatedGossiper" where
  "processNodeAnnouncement cfg imp nMsg m d =
     (let d1 = (if isRemote nMsg then logCall (ValidateNodeAnnCall m) d else d);
          verr = (if isRemote nMsg then validateNodeAnn imp m else None)
      in case verr of
           Some e \<Rightarrow> ([], errSend nMsg (Some (UnableToValidateNodeAnn e)) d1)
         | None \<Rightarrow>
             (let node = \<lparr>HaveNodeAnnouncement = True,
                          ln_LastUpdate = uint (na_Timestamp m),
                          ln_Addresses = na_Addresses m,
                          PubKey = na_NodeID m,
                          ln_Alias = na_Alias m,
                          AuthSig = na_Signature m,
                          ln_Features = na_Features m\<rparr>;
                  d2 = logCall (AddNodeCall node) d1
              in case Router_AddNode cfg (history d1) node of
                   Some e \<Rightarrow> ([], errSend nMsg (Some e) d2)
                 | None \<Rightarrow> ([MsgNodeAnnouncement m], errSend nMsg None d2)))"

text \<open>
  The case \<^verbatim>\<open>*lnwire.ChannelAnnouncement\<close>. On a foreign chain hash the code logs
  and returns nil; nothing is sent on \<^verbatim>\<open>nMsg.err\<close>.
\<close>

definition processChannelAnnouncement ::
  "Config \<Rightarrow> Imports \<Rightarrow> networkMsg \<Rightarrow> ChannelAnnouncement \<Rightarrow> AuthenticatedGossiper \<Rightarrow>
   Message list \<times> AuthenticatedGossiper" where
  "processChannelAnnouncement cfg imp nMsg m d =
     (if ca_ChainHash m \<noteq> ChainHash cfg then ([], d)
      else if isRemote nMsg \<and> isPremature d (ca_ShortChannelID m) 0 then
        (let blockHeight = BlockHeight (ca_ShortChannelID m)
         in ([], appendPremature blockHeight nMsg d))
      else
        (let d1 = (if isRemote nMsg then logCall (ValidateChannelAnnCall m) d else d);
             verr = (if isRemote nMsg then validateChannelAnn imp m else None)
         in case verr of
              Some e \<Rightarrow> ([], errSend nMsg (Some (UnableToValidateAnnouncement e)) d1)
            | None \<Rightarrow>
                (let proof = (if isRemote nMsg
                              then Some \<lparr>NodeSig1 = ca_NodeSig1 m,
                                         NodeSig2 = ca_NodeSig2 m,
                                         BitcoinSig1 = ca_BitcoinSig1 m,
                                         BitcoinSig2 = ca_BitcoinSig2 m\<rparr>
                              else None)
                 in case Features_Encode imp (ca_Features m) of
                      Inl e \<Rightarrow> ([], errSend nMsg (Some e) d1)
                    | Inr featureBuf \<Rightarrow>
                        (let edge = \<lparr>ChannelID = ToUint64 imp (ca_ShortChannelID m),
                                     info_ChainHash = ca_ChainHash m,
                                     NodeKey1 = ca_NodeID1 m,
                                     NodeKey2 = ca_NodeID2 m,
                                     BitcoinKey1 = ca_BitcoinKey1 m,
                                     BitcoinKey2 = ca_BitcoinKey2 m,
                                     AuthProof = proof,
                                     info_Features = featureBuf\<rparr>;
                             d2 = logCall (AddEdgeCall edge) d1
                         in case Router_AddEdge cfg (history d1) edge of
                              Some e \<Rightarrow> ([], errSend nMsg (Some e) d2)
                            | None \<Rightarrow>
                                ((if proof \<noteq> None then [MsgChannelAnnouncement m] else []),
                                 errSend nMsg None d2)))))"

text \<open>The case \<^verbatim>\<open>*lnwire.ChannelUpdate\<close>.\<close>

definition processChannelUpdate ::
  "Config \<Rightarrow> Imports \<Rightarrow> networkMsg \<Rightarrow> ChannelUpdate \<Rightarrow> AuthenticatedGossiper \<Rightarrow>
   Message list \<times> AuthenticatedGossiper" where
  "processChannelUpdate cfg imp nMsg m d =
     (if cu_ChainHash m \<noteq> ChainHash cfg then ([], d)
      else
        (let blockHeight = BlockHeight (cu_ShortChannelID m);
             shortChanID = ToUint64 imp (cu_ShortChannelID m)
         in if isRemote nMsg \<and> isPremature d (cu_ShortChannelID m) 0 then
              ([], appendPremature blockHeight nMsg d)
            else
              (let d1 = logCall (GetChannelByIDCall (cu_ShortChannelID m)) d
               in case Router_GetChannelByID cfg (history d) (cu_ShortChannelID m) of
                    Inl e \<Rightarrow>
                      ([], errSend nMsg (Some (UnableToValidateChannelUpdate shortChanID e)) d1)
                  | Inr (chanInfo, _, _) \<Rightarrow>
                      (case (if cu_Flags m = 0 then Some (NodeKey1 chanInfo)
                             else if cu_Flags m = 1 then Some (NodeKey2 chanInfo)
                             else None) of
                         None \<Rightarrow>
                           ([], errSend nMsg (Some (UnknownFlags (cu_Flags m) shortChanID)) d1)
                       | Some pubKey \<Rightarrow>
                           (let d2 = logCall (ValidateChannelUpdateAnnCall pubKey m) d1
                            in case validateChannelUpdateAnn imp pubKey m of
                                 Some e \<Rightarrow>
                                   ([], errSend nMsg
                                          (Some (UnableToValidateChannelUpdateAnn
                                                   (cu_ShortChannelID m) e)) d2)
                               | None \<Rightarrow>
                                   (let update = \<lparr>ep_Signature = cu_Signature m,
                                                  ep_ChannelID = shortChanID,
                                                  ep_LastUpdate = uint (cu_Timestamp m),
                                                  ep_Flags = cu_Flags m,
                                                  ep_TimeLockDelta = cu_TimeLockDelta m,
                                                  MinHTLC = cu_HtlcMinimumMsat m,
                                                  FeeBaseMSat = ucast (cu_BaseFee m),
                                                  FeeProportionalMillionths = ucast (cu_FeeRate m)\<rparr>;
                                        d3 = logCall (UpdateEdgeCall update) d2
                                    in case Router_UpdateEdge cfg (history d2) update of
                                         Some e \<Rightarrow> ([], errSend nMsg (Some e) d3)
                                       | None \<Rightarrow>
                                           ((if AuthProof chanInfo \<noteq> None
                                             then [MsgChannelUpdate m] else []),
                                            errSend nMsg None d3)))))))"

text \<open>
  The case \<^verbatim>\<open>*lnwire.AnnounceSignatures\<close>, in three parts. \<open>remotePeerOf\<close>: the
  counterparty a local half is sent to.
\<close>

definition remotePeerOf :: "bool \<Rightarrow> ChannelEdgeInfo \<Rightarrow> PublicKey" where
  "remotePeerOf isFirstNode chanInfo =
     (if isFirstNode then NodeKey2 chanInfo else NodeKey1 chanInfo)"

text \<open>The opposite half is not in the store: keep this half, and pass a local one on.\<close>

definition storeHalfProof ::
  "Config \<Rightarrow> Imports \<Rightarrow> networkMsg \<Rightarrow> AnnounceSignatures \<Rightarrow> ChannelEdgeInfo \<Rightarrow> bool \<Rightarrow>
   WaitingProof \<Rightarrow> AuthenticatedGossiper \<Rightarrow> Message list \<times> AuthenticatedGossiper" where
  "storeHalfProof cfg imp nMsg m chanInfo isFirstNode proof d =
     (let shortChanID = ToUint64 imp (as_ShortChannelID m)
      in case waitingProofs_Add cfg imp proof d of
           (Some e, d1) \<Rightarrow> ([], errSend nMsg (Some (UnableToStoreProof shortChanID e)) d1)
         | (None, d1) \<Rightarrow>
             (let d2 = (if \<not> isRemote nMsg
                        then logCall (SendToPeerCall (remotePeerOf isFirstNode chanInfo)
                                        [MsgAnnounceSignatures m]) d1
                        else d1)
              in ([], errSend nMsg None d2)))"

text \<open>
  Both halves are at hand. \<open>assembleDbProof\<close>: the halves are slotted by whether the
  sender of this half is the first node of the channel.
\<close>

definition assembleDbProof :: "bool \<Rightarrow> AnnounceSignatures \<Rightarrow> WaitingProof \<Rightarrow> ChannelAuthProof" where
  "assembleDbProof isFirstNode m oppositeProof =
     (let opp = wp_AnnounceSignatures oppositeProof
      in if isFirstNode
         then \<lparr>NodeSig1 = as_NodeSignature m,
               NodeSig2 = as_NodeSignature opp,
               BitcoinSig1 = as_BitcoinSignature m,
               BitcoinSig2 = as_BitcoinSignature opp\<rparr>
         else \<lparr>NodeSig1 = as_NodeSignature opp,
               NodeSig2 = as_NodeSignature m,
               BitcoinSig1 = as_BitcoinSignature opp,
               BitcoinSig2 = as_BitcoinSignature m\<rparr>)"

text \<open>Rebuild the announcement, check it, hand the proof over.\<close>

definition assembleProof ::
  "Config \<Rightarrow> Imports \<Rightarrow> networkMsg \<Rightarrow> AnnounceSignatures \<Rightarrow> ChannelEdgeInfo \<Rightarrow>
   ChannelEdgePolicy option \<Rightarrow> ChannelEdgePolicy option \<Rightarrow> bool \<Rightarrow> WaitingProof \<Rightarrow> WaitingProof \<Rightarrow>
   AuthenticatedGossiper \<Rightarrow> Message list \<times> AuthenticatedGossiper" where
  "assembleProof cfg imp nMsg m chanInfo e1 e2 isFirstNode proof oppositeProof d =
     (let shortChanID = ToUint64 imp (as_ShortChannelID m);
          dbProof = assembleDbProof isFirstNode m oppositeProof
      in case createChanAnnouncement imp dbProof chanInfo e1 e2 of
           (chanAnn, e1Ann, e2Ann) \<Rightarrow>
             (let d1 = logCall (ValidateChannelAnnCall chanAnn) d
              in case validateChannelAnn imp chanAnn of
                   Some e \<Rightarrow> ([], errSend nMsg (Some (ProofNotValid shortChanID e)) d1)
                 | None \<Rightarrow>
                     (let d2 = logCall (AddProofCall (as_ShortChannelID m) dbProof) d1
                      in case Router_AddProof cfg (history d1) (as_ShortChannelID m) dbProof of
                           Some e \<Rightarrow>
                             ([], errSend nMsg (Some (UnableToAddProof (as_ChannelID m) e)) d2)
                         | None \<Rightarrow>
                             (case waitingProofs_Remove cfg (OppositeKey imp proof) d2 of
                                (Some e, d3) \<Rightarrow>
                                  ([], errSend nMsg
                                         (Some (UnableToRemoveOppositeProof (as_ChannelID m) e)) d3)
                              | (None, d3) \<Rightarrow>
                                  (let announcements = [MsgChannelAnnouncement chanAnn];
                                       announcements =
                                         (case e1Ann of None \<Rightarrow> announcements
                                          | Some u \<Rightarrow> announcements @ [MsgChannelUpdate u]);
                                       announcements =
                                         (case e2Ann of None \<Rightarrow> announcements
                                          | Some u \<Rightarrow> announcements @ [MsgChannelUpdate u]);
                                       d4 = (if \<not> isRemote nMsg
                                             then logCall (SendToPeerCall
                                                    (remotePeerOf isFirstNode chanInfo)
                                                    [MsgAnnounceSignatures m]) d3
                                             else d3)
                                   in (announcements, errSend nMsg None d4))))))"

definition processAnnounceSignatures ::
  "Config \<Rightarrow> Imports \<Rightarrow> networkMsg \<Rightarrow> AnnounceSignatures \<Rightarrow> AuthenticatedGossiper \<Rightarrow>
   Message list \<times> AuthenticatedGossiper" where
  "processAnnounceSignatures cfg imp nMsg m d =
     (let needBlockHeight = BlockHeight (as_ShortChannelID m) + ProofMatureDelta cfg;
          shortChanID = ToUint64 imp (as_ShortChannelID m)
      in if isPremature d (as_ShortChannelID m) (ProofMatureDelta cfg) then
           ([], appendPremature needBlockHeight nMsg d)
         else
           (let d1 = logCall (GetChannelByIDCall (as_ShortChannelID m)) d
            in case Router_GetChannelByID cfg (history d) (as_ShortChannelID m) of
                 Inl _ \<Rightarrow>
                   (let proof = NewWaitingProof (isRemote nMsg) m
                    in case waitingProofs_Add cfg imp proof d1 of
                         (Some e, d2) \<Rightarrow>
                           ([], errSend nMsg (Some (UnableToStoreProof shortChanID e)) d2)
                       | (None, d2) \<Rightarrow> ([], errSend nMsg None d2))
               | Inr (chanInfo, e1, e2) \<Rightarrow>
                   (let isFirstNode =
                          (SerializeCompressed (peer nMsg) = SerializeCompressed (NodeKey1 chanInfo));
                        isSecondNode =
                          (SerializeCompressed (peer nMsg) = SerializeCompressed (NodeKey2 chanInfo))
                    in if \<not> (isFirstNode \<or> isSecondNode) then
                         ([], errSend nMsg (Some (NotChannelPeer shortChanID)) d1)
                       else
                         (let proof = NewWaitingProof (isRemote nMsg) m
                          in case waitingProofs_Get cfg (OppositeKey imp proof) d1 of
                               (Inl e, d2) \<Rightarrow>
                                 (if e \<noteq> ErrWaitingProofNotFound then
                                    ([], errSend nMsg
                                           (Some (UnableToGetOppositeProof shortChanID e)) d2)
                                  else storeHalfProof cfg imp nMsg m chanInfo isFirstNode proof d2)
                             | (Inr oppositeProof, d2) \<Rightarrow>
                                 assembleProof cfg imp nMsg m chanInfo e1 e2 isFirstNode
                                   proof oppositeProof d2))))"

text \<open>\<^verbatim>\<open>processNetworkAnnouncement\<close>: the type switch. The nil slice is \<open>[]\<close>.\<close>

definition processNetworkAnnouncement ::
  "Config \<Rightarrow> Imports \<Rightarrow> networkMsg \<Rightarrow> AuthenticatedGossiper \<Rightarrow>
   Message list \<times> AuthenticatedGossiper" where
  "processNetworkAnnouncement cfg imp nMsg d =
     (case msg nMsg of
        MsgNodeAnnouncement m \<Rightarrow> processNodeAnnouncement cfg imp nMsg m d
      | MsgChannelAnnouncement m \<Rightarrow> processChannelAnnouncement cfg imp nMsg m d
      | MsgChannelUpdate m \<Rightarrow> processChannelUpdate cfg imp nMsg m d
      | MsgAnnounceSignatures m \<Rightarrow> processAnnounceSignatures cfg imp nMsg m d
      | MsgOther _ \<Rightarrow> ([], errSend nMsg (Some WrongAnnouncementType) d))"

section \<open>networkHandler\<close>

text \<open>
  The \<^verbatim>\<open>select\<close> loop of the supervisor: a network message, a block epoch, a trickle
  tick or the quit signal. The state of the loop is the gossiper and the local batch
  \<^verbatim>\<open>announcements\<close>. A block epoch carries the height as \<^verbatim>\<open>int32\<close>, converted with
  \<^verbatim>\<open>uint32(newBlock.Height)\<close>: the same 32 bits.
\<close>

datatype selectCase =
    NetworkMsgs networkMsg
  | NewBlocks "32 word option"
  | TrickleTimer emitOrder
  | Quit

definition addEmitted :: "Message list \<Rightarrow> deDupedAnnouncements \<Rightarrow> deDupedAnnouncements" where
  "addEmitted emittedAnnouncements announcements =
     (if emittedAnnouncements \<noteq> [] then AddMsgs emittedAnnouncements announcements
      else announcements)"

text \<open>
  The loop over \<^verbatim>\<open>d.prematureAnnouncements[uint32(newBlock.Height)]\<close>: the slice
  is read once, before the first iteration, and the supervisor holds the gossiper's lock
  for the whole loop.
\<close>

fun reprocessPremature ::
  "Config \<Rightarrow> Imports \<Rightarrow> networkMsg list \<Rightarrow> AuthenticatedGossiper \<times> deDupedAnnouncements \<Rightarrow>
   AuthenticatedGossiper \<times> deDupedAnnouncements" where
  "reprocessPremature cfg imp [] s = s"
| "reprocessPremature cfg imp (ann # anns) (d, announcements) =
     (case processNetworkAnnouncement cfg imp ann d of
        (emittedAnnouncements, d') \<Rightarrow>
          reprocessPremature cfg imp anns (d', addEmitted emittedAnnouncements announcements))"

text \<open>
  One turn of the loop, as far as the supervisor itself runs it; \<open>None\<close> when
  \<^verbatim>\<open>networkHandler\<close> returns. An \<^verbatim>\<open>AnnounceSignatures\<close> is processed by the
  supervisor, before the next case is taken. Any other message is handed to a goroutine
  (\<open>worker\<close>, below): the supervisor starts it and goes on, and its own turn leaves the
  gossiper and the batch as they are.
\<close>

fun networkHandlerStep ::
  "Config \<Rightarrow> Imports \<Rightarrow> selectCase \<Rightarrow> AuthenticatedGossiper \<times> deDupedAnnouncements \<Rightarrow>
   (AuthenticatedGossiper \<times> deDupedAnnouncements) option" where
  "networkHandlerStep cfg imp (NetworkMsgs announcement) (d, announcements) =
     (case msg announcement of
        MsgAnnounceSignatures _ \<Rightarrow>
          (case processNetworkAnnouncement cfg imp announcement d of
             (emittedAnnouncements, d') \<Rightarrow>
               Some (d', addEmitted emittedAnnouncements announcements))
      | _ \<Rightarrow> Some (d, announcements))"
| "networkHandlerStep cfg imp (NewBlocks None) (d, announcements) = None"
| "networkHandlerStep cfg imp (NewBlocks (Some height)) (d, announcements) =
     (let blockHeight = height;
          d1 = d\<lparr>bestHeight := blockHeight\<rparr>
      in case reprocessPremature cfg imp (prematureAt d1 height) (d1, announcements) of
           (d2, announcements') \<Rightarrow>
             Some (d2\<lparr>prematureAnnouncements := (prematureAnnouncements d2)(blockHeight := None)\<rparr>,
                   announcements'))"
| "networkHandlerStep cfg imp (TrickleTimer ord) (d, announcements) =
     (case Emit ord announcements of
        (announcementBatch, announcements') \<Rightarrow>
          if length announcementBatch = 0 then Some (d, announcements')
          else
            (let d1 = logCall (BroadcastCall announcementBatch) d
             in case Broadcast cfg (history d) announcementBatch of
                  Some e \<Rightarrow> Some (d1, announcements')
                | None \<Rightarrow> Some (d1, reset announcements')))"
| "networkHandlerStep cfg imp Quit (d, announcements) = None"

subsection \<open>The goroutine of a message\<close>

text \<open>
  The goroutine started for a message that is not an \<^verbatim>\<open>AnnounceSignatures\<close> runs
  beside the supervisor and beside the other goroutines. It shares with them the best
  height (read with \<^verbatim>\<open>atomic.LoadUint32\<close> in \<^verbatim>\<open>isPremature\<close>, written by the
  supervisor with \<^verbatim>\<open>atomic.StoreUint32\<close>), the premature announcements (written under
  \<^verbatim>\<open>d.Lock()\<close>) and the batch (written under the batch's own lock). A goroutine is followed
  through four stages:

  \<^item> \<open>Spawned\<close>: started by the supervisor; it has not passed \<^verbatim>\<open>WaitForDependants\<close>;
  \<^item> \<open>Loaded\<close>: it is inside \<^verbatim>\<open>processNetworkAnnouncement\<close> and holds the best height
    that \<^verbatim>\<open>isPremature\<close> loaded (a message that never reaches \<^verbatim>\<open>isPremature\<close> does
    not use it);
  \<^item> \<open>Returned\<close>: \<^verbatim>\<open>processNetworkAnnouncement\<close> has returned the announcements to emit
    and \<^verbatim>\<open>SignalDependants\<close> was called;
  \<^item> \<open>Finished\<close>: the emitted announcements are in the batch and the goroutine is over
    (\<^verbatim>\<open>CompleteJob\<close>).

  Between the load of the best height and the rest of \<^verbatim>\<open>processNetworkAnnouncement\<close>
  the supervisor and the other goroutines may take any number of steps. The rest of
  \<^verbatim>\<open>processNetworkAnnouncement\<close> (either the append to the premature announcements under the
  lock, or the validation, the calls of the router and the send of the result) is taken
  as one step, and so is the \<^verbatim>\<open>AddMsgs\<close> that follows: the model has the runs in which the
  calls of one goroutine after its load are not interrupted. These are runs of the code,
  not all of them; the model serves to exhibit runs, not to bound them.
\<close>

datatype worker =
    Spawned networkMsg
  | Loaded networkMsg "32 word"
  | Returned "Message list"
  | Finished

text \<open>
  \<^verbatim>\<open>processNetworkAnnouncement\<close> as a goroutine runs it when \<^verbatim>\<open>isPremature\<close> loaded
  the best height \<open>seen\<close> earlier: the function reads the best height there only, and
  never writes it.
\<close>

definition workerProcess ::
  "Config \<Rightarrow> Imports \<Rightarrow> networkMsg \<Rightarrow> 32 word \<Rightarrow> AuthenticatedGossiper \<Rightarrow>
   Message list \<times> AuthenticatedGossiper" where
  "workerProcess cfg imp announcement seen d =
     (case processNetworkAnnouncement cfg imp announcement (d\<lparr>bestHeight := seen\<rparr>) of
        (emittedAnnouncements, d') \<Rightarrow> (emittedAnnouncements, d'\<lparr>bestHeight := bestHeight d\<rparr>))"

text \<open>
  Modelled from the spec: the validation barrier (\<^verbatim>\<open>routing.ValidationBarrier\<close>) is not
  among the sources. A channel update for a short channel id depends on the channel
  announcement for that id if one is in flight; a node announcement for a key depends on
  any channel announcement in flight that references the key; a channel announcement has
  no dependencies. The barrier bounds the goroutines in flight by a fixed capacity
  (\<^verbatim>\<open>runtime.NumCPU()*10\<close> in \<^verbatim>\<open>networkHandler\<close>). A goroutine goes through
  wait-for-dependants, process, signal-dependants, complete-job.
\<close>

fun dependsOn :: "Message \<Rightarrow> ChannelAnnouncement \<Rightarrow> bool" where
  "dependsOn (MsgChannelUpdate u) ca = (cu_ShortChannelID u = ca_ShortChannelID ca)"
| "dependsOn (MsgNodeAnnouncement a) ca =
     (NewVertex (na_NodeID a) = NewVertex (ca_NodeID1 ca) \<or>
      NewVertex (na_NodeID a) = NewVertex (ca_NodeID2 ca))"
| "dependsOn _ ca = False"

fun unsignalled :: "worker \<Rightarrow> ChannelAnnouncement option" where
  "unsignalled (Spawned n) =
     (case msg n of MsgChannelAnnouncement ca \<Rightarrow> Some ca | _ \<Rightarrow> None)"
| "unsignalled (Loaded n seen) =
     (case msg n of MsgChannelAnnouncement ca \<Rightarrow> Some ca | _ \<Rightarrow> None)"
| "unsignalled (Returned emittedAnnouncements) = None"
| "unsignalled Finished = None"

definition mustWait :: "worker list \<Rightarrow> nat \<Rightarrow> Message \<Rightarrow> bool" where
  "mustWait workers i m =
     list_ex (\<lambda>(j, w). j \<noteq> i \<and> (case unsignalled w of None \<Rightarrow> False | Some ca \<Rightarrow> dependsOn m ca))
       (enumerate 0 workers)"

definition inFlight :: "worker list \<Rightarrow> nat" where
  "inFlight workers = length (filter (\<lambda>w. w \<noteq> Finished) workers)"

text \<open>
  The supervisor and its goroutines together. A step is taken either by the supervisor
  (one case of its \<^verbatim>\<open>select\<close>) or by the goroutine with a given number (its place in the
  order of starting). \<open>None\<close>: the step cannot be taken now (the supervisor waits in
  \<^verbatim>\<open>InitJobDependancies\<close> for a free slot, the goroutine waits in
  \<^verbatim>\<open>WaitForDependants\<close>, is over or was never started), or the supervisor returned.
\<close>

datatype action =
    Supervisor selectCase
  | Goroutine nat

fun spawnOf :: "selectCase \<Rightarrow> networkMsg option" where
  "spawnOf (NetworkMsgs announcement) =
     (case msg announcement of MsgAnnounceSignatures _ \<Rightarrow> None | _ \<Rightarrow> Some announcement)"
| "spawnOf _ = None"

type_synonym gossipSystem = "AuthenticatedGossiper \<times> deDupedAnnouncements \<times> worker list"

fun systemStep ::
  "Config \<Rightarrow> Imports \<Rightarrow> nat \<Rightarrow> action \<Rightarrow> gossipSystem \<Rightarrow> gossipSystem option" where
  "systemStep cfg imp capacity (Supervisor c) (d, announcements, workers) =
     (case spawnOf c of
        Some announcement \<Rightarrow>
          if inFlight workers < capacity
          then Some (d, announcements, workers @ [Spawned announcement])
          else None
      | None \<Rightarrow>
          (case networkHandlerStep cfg imp c (d, announcements) of
             None \<Rightarrow> None
           | Some (d', announcements') \<Rightarrow> Some (d', announcements', workers)))"
| "systemStep cfg imp capacity (Goroutine i) (d, announcements, workers) =
     (if i < length workers then
        (case workers ! i of
           Spawned announcement \<Rightarrow>
             if mustWait workers i (msg announcement) then None
             else Some (d, announcements, workers[i := Loaded announcement (bestHeight d)])
         | Loaded announcement seen \<Rightarrow>
             (case workerProcess cfg imp announcement seen d of
                (emittedAnnouncements, d') \<Rightarrow>
                  Some (d', announcements, workers[i := Returned emittedAnnouncements]))
         | Returned emittedAnnouncements \<Rightarrow>
             Some (d, addEmitted emittedAnnouncements announcements, workers[i := Finished])
         | Finished \<Rightarrow> None)
      else None)"

text \<open>A run: a sequence of steps, each of which can be taken when its turn comes.\<close>

fun runSystem ::
  "Config \<Rightarrow> Imports \<Rightarrow> nat \<Rightarrow> action list \<Rightarrow> gossipSystem \<Rightarrow> gossipSystem option" where
  "runSystem cfg imp capacity [] s = Some s"
| "runSystem cfg imp capacity (a # as) s =
     (case systemStep cfg imp capacity a s of
        None \<Rightarrow> None
      | Some s' \<Rightarrow> runSystem cfg imp capacity as s')"

section \<open>Properties used in the statements, and concrete inputs\<close>

text \<open>
  Reading the record of calls: the events a run added, the calls of one kind among
  them, and the outcomes sent on one result channel.
\<close>

datatype callKind =
    Validation
  | RouterAddNode
  | RouterAddEdge
  | RouterUpdateEdge
  | RouterAddProof
  | RouterGetChannelByID
  | PeerSend
  | PeerBroadcast
  | StoreAdd
  | StoreGet
  | StoreRemove
  | ResultSend

fun kindOf :: "event \<Rightarrow> callKind" where
  "kindOf (ValidateNodeAnnCall _) = Validation"
| "kindOf (ValidateChannelAnnCall _) = Validation"
| "kindOf (ValidateChannelUpdateAnnCall _ _) = Validation"
| "kindOf (AddNodeCall _) = RouterAddNode"
| "kindOf (AddEdgeCall _) = RouterAddEdge"
| "kindOf (UpdateEdgeCall _) = RouterUpdateEdge"
| "kindOf (AddProofCall _ _) = RouterAddProof"
| "kindOf (GetChannelByIDCall _) = RouterGetChannelByID"
| "kindOf (SendToPeerCall _ _) = PeerSend"
| "kindOf (BroadcastCall _) = PeerBroadcast"
| "kindOf (ProofAddCall _) = StoreAdd"
| "kindOf (ProofGetCall _) = StoreGet"
| "kindOf (ProofRemoveCall _) = StoreRemove"
| "kindOf (ErrChanSend _ _) = ResultSend"

definition calls :: "callKind \<Rightarrow> event list \<Rightarrow> event list" where
  "calls k evs = filter (\<lambda>ev. kindOf ev = k) evs"

definition newEvents :: "AuthenticatedGossiper \<Rightarrow> AuthenticatedGossiper \<Rightarrow> event list" where
  "newEvents d d' = drop (length (history d)) (history d')"

fun outcomeOn :: "nat \<Rightarrow> event \<Rightarrow> error option option" where
  "outcomeOn c (ErrChanSend c' e) = (if c' = c then Some e else None)"
| "outcomeOn c _ = None"

definition outcomes :: "nat \<Rightarrow> event list \<Rightarrow> error option list" where
  "outcomes c evs = List.map_filter (outcomeOn c) evs"

text \<open>
  Two shapes of a run from \<open>d\<close> to \<open>d'\<close>. \<open>quiet\<close>: calls were recorded, none
  of them a send on a result channel, and the height and the premature map are as
  before. \<open>delivers\<close>: the same, followed by one send on the envelope's result channel.
\<close>

definition quiet :: "AuthenticatedGossiper \<Rightarrow> AuthenticatedGossiper \<Rightarrow> bool" where
  "quiet d d' =
     ((\<exists>evs. history d' = history d @ evs \<and> calls ResultSend evs = []) \<and>
      prematureAnnouncements d' = prematureAnnouncements d \<and> bestHeight d' = bestHeight d)"

definition delivers :: "networkMsg \<Rightarrow> AuthenticatedGossiper \<Rightarrow> AuthenticatedGossiper \<Rightarrow> bool" where
  "delivers nMsg d d' =
     ((\<exists>evs e. history d' = history d @ evs @ [ErrChanSend (err nMsg) e] \<and>
               calls ResultSend evs = []) \<and>
      prematureAnnouncements d' = prematureAnnouncements d \<and> bestHeight d' = bestHeight d)"

text \<open>Each of the three maps holds messages of its own type only.\<close>

definition batchKinds :: "deDupedAnnouncements \<Rightarrow> bool" where
  "batchKinds d =
     (ran (channelAnnouncements d) \<subseteq> {m. msgRank m = 0} \<and>
      ran (channelUpdates d) \<subseteq> {m. msgRank m = 1} \<and>
      ran (nodeAnnouncements d) \<subseteq> {m. msgRank m = 2})"

definition alice :: PublicKey where
  "alice = PublicKey [2, 17]"

definition bob :: PublicKey where
  "bob = PublicKey [3, 34]"

definition carol :: PublicKey where
  "carol = PublicKey [2, 51]"

definition ourChain :: Hash where
  "ourChain = [111]"

definition foreignChain :: Hash where
  "foreignChain = [222]"

definition chan100 :: ShortChannelID where
  "chan100 = \<lparr>BlockHeight = 100, TxIndex = 1, TxPosition = 0\<rparr>"

definition emptyBatch :: deDupedAnnouncements where
  "emptyBatch = \<lparr>channelAnnouncements = Map.empty, channelUpdates = Map.empty,
                 nodeAnnouncements = Map.empty\<rparr>"

definition nodeAnn :: "32 word \<Rightarrow> NodeAnnouncement" where
  "nodeAnn ts = \<lparr>na_Signature = Signature 1 1, na_Features = [], na_Timestamp = ts,
                 na_NodeID = alice, na_Alias = ''alice'', na_Addresses = []\<rparr>"

text \<open>
  A channel at height 100 between alice and bob, its messages, and collaborators: a
  router that knows the channel and accepts every call, a database that does not fail,
  signature checks that accept (\<open>acceptingImports\<close>) or reject (\<open>rejectingImports\<close>)
  everything. \<open>toUint64\<close> and \<open>shortChanIDFromInt\<close> pack and unpack the three
  fields of a short channel id (3, 3 and 2 bytes).
\<close>

definition toUint64 :: "ShortChannelID \<Rightarrow> 64 word" where
  "toUint64 c = push_bit 40 (ucast (BlockHeight c)) OR push_bit 16 (ucast (TxIndex c)) OR
                ucast (TxPosition c)"

definition shortChanIDFromInt :: "64 word \<Rightarrow> ShortChannelID" where
  "shortChanIDFromInt chanID =
     \<lparr>BlockHeight = ucast (drop_bit 40 chanID),
      TxIndex = ucast (drop_bit 16 chanID) AND 0xFFFFFF,
      TxPosition = ucast chanID\<rparr>"

definition updateOfPolicy :: "ChannelEdgeInfo \<Rightarrow> ChannelEdgePolicy \<Rightarrow> ChannelUpdate" where
  "updateOfPolicy chanInfo e =
     \<lparr>cu_Signature = ep_Signature e,
      cu_ChainHash = info_ChainHash chanInfo,
      cu_ShortChannelID = shortChanIDFromInt (ChannelID chanInfo),
      cu_Timestamp = word_of_int (ep_LastUpdate e),
      cu_Flags = ep_Flags e,
      cu_TimeLockDelta = ep_TimeLockDelta e,
      cu_HtlcMinimumMsat = MinHTLC e,
      cu_BaseFee = ucast (FeeBaseMSat e),
      cu_FeeRate = ucast (FeeProportionalMillionths e)\<rparr>"

definition acceptingImports :: Imports where
  "acceptingImports =
     \<lparr>validateNodeAnn = (\<lambda>_. None),
      validateChannelAnn = (\<lambda>_. None),
      validateChannelUpdateAnn = (\<lambda>_ _. None),
      createChanAnnouncement = (\<lambda>chanProof chanInfo e1 e2.
        (\<lparr>ca_NodeSig1 = NodeSig1 chanProof,
          ca_NodeSig2 = NodeSig2 chanProof,
          ca_BitcoinSig1 = BitcoinSig1 chanProof,
          ca_BitcoinSig2 = BitcoinSig2 chanProof,
          ca_Features = [],
          ca_ChainHash = info_ChainHash chanInfo,
          ca_ShortChannelID = shortChanIDFromInt (ChannelID chanInfo),
          ca_NodeID1 = NodeKey1 chanInfo,
          ca_NodeID2 = NodeKey2 chanInfo,
          ca_BitcoinKey1 = BitcoinKey1 chanInfo,
          ca_BitcoinKey2 = BitcoinKey2 chanInfo\<rparr>,
         map_option (updateOfPolicy chanInfo) e1,
         map_option (updateOfPolicy chanInfo) e2)),
      ToUint64 = toUint64,
      Features_Encode = Inr\<rparr>"

definition rejectingImports :: Imports where
  "rejectingImports =
     acceptingImports\<lparr>validateNodeAnn := (\<lambda>_. Some (ErrExternal 1)),
                      validateChannelAnn := (\<lambda>_. Some (ErrExternal 1)),
                      validateChannelUpdateAnn := (\<lambda>_ _. Some (ErrExternal 1))\<rparr>"

definition chanInfo100 :: ChannelEdgeInfo where
  "chanInfo100 =
     \<lparr>ChannelID = toUint64 chan100, info_ChainHash = ourChain,
      NodeKey1 = alice, NodeKey2 = bob, BitcoinKey1 = alice, BitcoinKey2 = bob,
      AuthProof = None, info_Features = []\<rparr>"

definition knownConfig :: Config where
  "knownConfig =
     \<lparr>ChainHash = ourChain,
      ProofMatureDelta = 6,
      Router_AddNode = (\<lambda>_ _. None),
      Router_AddEdge = (\<lambda>_ _. None),
      Router_UpdateEdge = (\<lambda>_ _. None),
      Router_AddProof = (\<lambda>_ _ _. None),
      Router_GetChannelByID = (\<lambda>_ chanID.
        if chanID = chan100 then Inr (chanInfo100, None, None) else Inl (ErrExternal 404)),
      Broadcast = (\<lambda>_ _. None),
      DB_Add = (\<lambda>_ _. None),
      DB_Get = (\<lambda>_ _. None),
      DB_Remove = (\<lambda>_ _. None)\<rparr>"

text \<open>A router that learns of the channel only after two lookups have failed.\<close>

definition lateConfig :: Config where
  "lateConfig =
     knownConfig\<lparr>Router_GetChannelByID := (\<lambda>h chanID.
        if chanID = chan100 \<and> 2 \<le> length (calls RouterGetChannelByID h)
        then Inr (chanInfo100, None, None) else Inl (ErrExternal 404))\<rparr>"

definition gossiperAt :: "32 word \<Rightarrow> AuthenticatedGossiper" where
  "gossiperAt h =
     \<lparr>bestHeight = h, prematureAnnouncements = Map.empty, waitingProofs = Map.empty,
      history = []\<rparr>"

definition chanAnn100 :: "Hash \<Rightarrow> ChannelAnnouncement" where
  "chanAnn100 chain =
     \<lparr>ca_NodeSig1 = Signature 1 1, ca_NodeSig2 = Signature 2 2,
      ca_BitcoinSig1 = Signature 3 3, ca_BitcoinSig2 = Signature 4 4,
      ca_Features = [], ca_ChainHash = chain, ca_ShortChannelID = chan100,
      ca_NodeID1 = alice, ca_NodeID2 = bob, ca_BitcoinKey1 = alice, ca_BitcoinKey2 = bob\<rparr>"

definition chanUpd100 :: "Hash \<Rightarrow> 16 word \<Rightarrow> ChannelUpdate" where
  "chanUpd100 chain fl =
     \<lparr>cu_Signature = Signature 5 5, cu_ChainHash = chain, cu_ShortChannelID = chan100,
      cu_Timestamp = 1000, cu_Flags = fl, cu_TimeLockDelta = 144,
      cu_HtlcMinimumMsat = 1000, cu_BaseFee = 1000, cu_FeeRate = 1\<rparr>"

definition annSigs100 :: "int \<Rightarrow> AnnounceSignatures" where
  "annSigs100 n =
     \<lparr>as_ChannelID = [7], as_ShortChannelID = chan100,
      as_NodeSignature = Signature n 1, as_BitcoinSignature = Signature n 2\<rparr>"

definition envelope :: "PublicKey \<Rightarrow> Message \<Rightarrow> bool \<Rightarrow> nat \<Rightarrow> networkMsg" where
  "envelope p m remote c = \<lparr>peer = p, msg = m, isRemote = remote, err = c\<rparr>"

text \<open>
  States reached by the code: bob's (remote) half of the proof for the channel arrived at
  height 106 and is stored; and both halves arrived while the router did not know the
  channel yet, so both are stored as orphans.
\<close>

definition remoteHalf :: networkMsg where
  "remoteHalf = envelope bob (MsgAnnounceSignatures (annSigs100 2)) True 1"

definition localHalf :: networkMsg where
  "localHalf = envelope alice (MsgAnnounceSignatures (annSigs100 1)) False 2"

text \<open>
  Alice's half of that proof once more, this time arriving from the network as bob's
  does: the origin of a half is how it reached the gossiper, not whose signatures it
  carries.
\<close>

definition aliceRemoteHalf :: networkMsg where
  "aliceRemoteHalf = envelope alice (MsgAnnounceSignatures (annSigs100 1)) True 3"

definition halfStored :: AuthenticatedGossiper where
  "halfStored =
     snd (processNetworkAnnouncement knownConfig acceptingImports remoteHalf (gossiperAt 106))"

definition bothOrphaned :: AuthenticatedGossiper where
  "bothOrphaned =
     snd (processNetworkAnnouncement lateConfig acceptingImports localHalf
       (snd (processNetworkAnnouncement lateConfig acceptingImports remoteHalf (gossiperAt 106))))"

text \<open>A remote announcement of the channel at height 100, sent by carol.\<close>

definition prematureAnn :: networkMsg where
  "prematureAnn = envelope carol (MsgChannelAnnouncement (chanAnn100 ourChain)) True 0"

text \<open>
  The edge that \<^verbatim>\<open>processNetworkAnnouncement\<close> builds from that announcement, with the
  four signatures as its proof.
\<close>

definition edge100 :: ChannelEdgeInfo where
  "edge100 =
     \<lparr>ChannelID = toUint64 chan100, info_ChainHash = ourChain,
      NodeKey1 = alice, NodeKey2 = bob, BitcoinKey1 = alice, BitcoinKey2 = bob,
      AuthProof = Some \<lparr>NodeSig1 = Signature 1 1, NodeSig2 = Signature 2 2,
                         BitcoinSig1 = Signature 3 3, BitcoinSig2 = Signature 4 4\<rparr>,
      info_Features = []\<rparr>"

text \<open>
  Three runs from best height 99 with no goroutine in flight, in each of which the
  supervisor receives that announcement and starts goroutine 0 for it.

  \<^item> \<open>inTime\<close>: the goroutine runs to its end, then the epochs of heights 100 and 101
    arrive.
  \<^item> \<open>overtaken\<close>: the goroutine loads the best height (99) in \<^verbatim>\<open>isPremature\<close>; the
    epoch of height 100 arrives and the supervisor handles it; the goroutine goes on to
    its end; the epochs of heights 101 and 102 arrive.
  \<^item> \<open>skipped\<close>: the goroutine runs to its end; the next epochs that the supervisor
    receives are those of heights 101 and 102.
\<close>

definition startAt99 :: gossipSystem where
  "startAt99 = (gossiperAt 99, emptyBatch, [])"

definition inTime :: "action list" where
  "inTime =
     [Supervisor (NetworkMsgs prematureAnn), Goroutine 0, Goroutine 0, Goroutine 0,
      Supervisor (NewBlocks (Some 100)), Supervisor (NewBlocks (Some 101))]"

definition overtaken :: "action list" where
  "overtaken =
     [Supervisor (NetworkMsgs prematureAnn), Goroutine 0,
      Supervisor (NewBlocks (Some 100)),
      Goroutine 0, Goroutine 0,
      Supervisor (NewBlocks (Some 101)), Supervisor (NewBlocks (Some 102))]"

definition skipped :: "action list" where
  "skipped =
     [Supervisor (NetworkMsgs prematureAnn), Goroutine 0, Goroutine 0, Goroutine 0,
      Supervisor (NewBlocks (Some 101)), Supervisor (NewBlocks (Some 102))]"

text \<open>
  What a run has come to: the record of calls, the envelopes still held under height
  \<open>h\<close>, the best height, the number of announcements in the batch, and the goroutines.
\<close>

definition outcomeOf ::
  "32 word \<Rightarrow> gossipSystem option \<Rightarrow>
   (event list \<times> networkMsg list \<times> 32 word \<times> nat \<times> worker list) option" where
  "outcomeOf h r =
     map_option (\<lambda>(d, announcements, workers).
        (history d, prematureAt d h, bestHeight d, numAnnouncements announcements, workers)) r"

section \<open>The batch: last write wins, and the order of an emitted batch\<close>

lemma batchEntry_addMsg:
  "batchEntry (addMsg m d) k = (if msgKey m = Some k then Some m else batchEntry d k)"
  by (cases m; cases k) auto

lemma find_app:
  "List.find P (xs @ ys) = (case List.find P xs of None \<Rightarrow> List.find P ys | Some x \<Rightarrow> Some x)"
  by (induction xs) auto

lemma batchEntry_AddMsgs:
  "batchEntry (AddMsgs msgs d) k =
     (case List.find (\<lambda>m. msgKey m = Some k) (rev msgs) of
        Some m \<Rightarrow> Some m
      | None \<Rightarrow> batchEntry d k)"
proof (induction msgs arbitrary: d)
  case Nil
  show ?case by simp
next
  case (Cons m msgs)
  show ?case
    by (simp add: Cons.IH batchEntry_addMsg find_app split: option.split)
qed

lemma addMsg_idem: "addMsg m (addMsg m d) = addMsg m d"
  by (cases m) auto

lemma AddMsgs_replicate: "AddMsgs (replicate (Suc n) m) d = addMsg m d"
  by (induction n arbitrary: d) (auto simp: addMsg_idem)

lemma numAnnouncements_single:
  "msgKey m = Some k \<Longrightarrow> numAnnouncements (addMsg m (reset d)) = 1"
  by (cases m) (auto simp: numAnnouncements_def reset_def)

text \<open>
  C8. Within a batch the entry under a key is the message added last under that key
  (the entries of the batch before the additions stay where no added message has the key):
  channel announcements by short channel id, channel updates by (short channel id,
  flags), node announcements by vertex. Adding one message N > 0 times to a fresh batch
  leaves a batch of size 1 holding that message.
\<close>

theorem addMsg_last_write_wins:
  "batchEntry (AddMsgs msgs d) k =
     (case List.find (\<lambda>m. msgKey m = Some k) (rev msgs) of
        Some m \<Rightarrow> Some m
      | None \<Rightarrow> batchEntry d k) \<and>
   (0 < N \<and> msgKey m = Some k' \<longrightarrow>
      batchEntry (AddMsgs (replicate N m) (reset d)) k' = Some m \<and>
      numAnnouncements (AddMsgs (replicate N m) (reset d)) = 1)"
proof -
  have "batchEntry (AddMsgs (replicate N m) (reset d)) k' = Some m \<and>
      numAnnouncements (AddMsgs (replicate N m) (reset d)) = 1"
    if pos: "0 < N" and key: "msgKey m = Some k'"
  proof -
    from pos obtain n where n: "N = Suc n" by (cases N) auto
    show ?thesis
      unfolding n AddMsgs_replicate
      by (simp add: batchEntry_addMsg key numAnnouncements_single)
  qed
  thus ?thesis using batchEntry_AddMsgs by blast
qed

theorem addMsg_last_write_wins_witness:
  "batchEntry (AddMsgs [MsgNodeAnnouncement (nodeAnn 5), MsgOther 0, MsgNodeAnnouncement (nodeAnn 7)]
                 emptyBatch) (NodeAnnKey [2, 17]) = Some (MsgNodeAnnouncement (nodeAnn 7)) \<and>
   (0::nat) < 3 \<and>
   msgKey (MsgNodeAnnouncement (nodeAnn 7)) = Some (NodeAnnKey [2, 17]) \<and>
   batchEntry (AddMsgs (replicate 3 (MsgNodeAnnouncement (nodeAnn 7))) (reset emptyBatch))
     (NodeAnnKey [2, 17]) = Some (MsgNodeAnnouncement (nodeAnn 7)) \<and>
   numAnnouncements (AddMsgs (replicate 3 (MsgNodeAnnouncement (nodeAnn 7))) (reset emptyBatch)) = 1"
  using addMsg_last_write_wins
    [of "[MsgNodeAnnouncement (nodeAnn 5), MsgOther 0, MsgNodeAnnouncement (nodeAnn 7)]"
        emptyBatch "NodeAnnKey [2, 17]" 3 "MsgNodeAnnouncement (nodeAnn 7)" "NodeAnnKey [2, 17]"]
  by (simp add: nodeAnn_def alice_def NewVertex_def)

lemma batchKinds_reset: "batchKinds (reset d)"
  by (simp add: batchKinds_def reset_def)

lemma batchKinds_addMsg: "batchKinds d \<Longrightarrow> batchKinds (addMsg m d)"
  by (cases m) (auto simp: batchKinds_def ran_def)

lemma batchKinds_AddMsgs: "batchKinds d \<Longrightarrow> batchKinds (AddMsgs msgs d)"
  by (induction msgs arbitrary: d) (auto simp: batchKinds_addMsg)

lemma set_rangeValues: "set (rangeValues order m) \<subseteq> ran m"
  by (auto simp: rangeValues_def List.map_filter_def ran_def)

lemma rangeValues_complete: "rangeOrder order m \<Longrightarrow> set (rangeValues order m) = ran m"
  by (force simp: rangeValues_def rangeOrder_def List.map_filter_def ran_def dom_def image_iff)

lemma length_rangeValues: "rangeOrder order m \<Longrightarrow> length (rangeValues order m) = card (dom m)"
proof -
  assume a: "rangeOrder order m"
  have "filter (\<lambda>k. m k \<noteq> None) order = order"
    using a by (auto simp: rangeOrder_def filter_id_conv dom_def)
  hence "length (rangeValues order m) = length order"
    unfolding rangeValues_def List.map_filter_def by (metis length_map)
  thus ?thesis using a by (metis distinct_card rangeOrder_def)
qed

text \<open>With orders the runtime can choose, \<^verbatim>\<open>Emit\<close> returns every entry of the batch.\<close>

lemma Emit_complete:
  assumes "rangeOrder (caOrder ord) (channelAnnouncements b)"
    and "rangeOrder (cuOrder ord) (channelUpdates b)"
    and "rangeOrder (naOrder ord) (nodeAnnouncements b)"
  shows "set (fst (Emit ord b)) =
           ran (channelAnnouncements b) \<union> ran (channelUpdates b) \<union> ran (nodeAnnouncements b)"
    and "length (fst (Emit ord b)) = numAnnouncements b"
  using assms
  by (simp_all add: Emit_def rangeValues_complete length_rangeValues numAnnouncements_def
        Un_assoc)

lemma Emit_segments:
  "\<exists>cas cus nas. fst (Emit ord b) = cas @ cus @ nas \<and>
       set cas \<subseteq> ran (channelAnnouncements b) \<and>
       set cus \<subseteq> ran (channelUpdates b) \<and>
       set nas \<subseteq> ran (nodeAnnouncements b)"
  unfolding Emit_def Let_def
  by (intro exI[of _ "rangeValues (caOrder ord) (channelAnnouncements b)"]
            exI[of _ "rangeValues (cuOrder ord) (channelUpdates b)"]
            exI[of _ "rangeValues (naOrder ord) (nodeAnnouncements b)"])
     (simp add: set_rangeValues)

lemma sorted_same_rank: "\<forall>x\<in>set xs. msgRank x = c \<Longrightarrow> sorted (map msgRank xs)"
  by (induction xs) auto

lemma Emit_sorted:
  assumes "batchKinds b"
  shows "sorted (map msgRank (fst (Emit ord b)))"
proof -
  have 1: "\<forall>x\<in>set (rangeValues (caOrder ord) (channelAnnouncements b)). msgRank x = 0"
    using assms set_rangeValues[of "caOrder ord" "channelAnnouncements b"]
    by (auto simp: batchKinds_def)
  have 2: "\<forall>x\<in>set (rangeValues (cuOrder ord) (channelUpdates b)). msgRank x = 1"
    using assms set_rangeValues[of "cuOrder ord" "channelUpdates b"]
    by (auto simp: batchKinds_def)
  have 3: "\<forall>x\<in>set (rangeValues (naOrder ord) (nodeAnnouncements b)). msgRank x = 2"
    using assms set_rangeValues[of "naOrder ord" "nodeAnnouncements b"]
    by (auto simp: batchKinds_def)
  show ?thesis
    unfolding Emit_def Let_def
    using 1 2 3 sorted_same_rank[OF 1] sorted_same_rank[OF 2] sorted_same_rank[OF 3]
    by (auto simp: sorted_append)
qed

lemma rangeValues_map:
  assumes "rangeOrder order m"
  shows "rangeValues order m = map (\<lambda>k. the (m k)) order"
proof -
  have "filter (\<lambda>k. m k \<noteq> None) order = order"
    using assms by (auto simp: rangeOrder_def filter_id_conv dom_def)
  thus ?thesis
    unfolding rangeValues_def List.map_filter_def by (simp add: comp_def)
qed

lemma Emit_map:
  assumes "rangeOrder (caOrder ord) (channelAnnouncements b)"
    and "rangeOrder (cuOrder ord) (channelUpdates b)"
    and "rangeOrder (naOrder ord) (nodeAnnouncements b)"
  shows "fst (Emit ord b) =
           map (\<lambda>k. the (channelAnnouncements b k)) (caOrder ord) @
           map (\<lambda>k. the (channelUpdates b k)) (cuOrder ord) @
           map (\<lambda>k. the (nodeAnnouncements b k)) (naOrder ord)"
  using assms by (simp add: Emit_def rangeValues_map)

lemma Emit_reset: "snd (Emit ord b) = reset b"
  by (simp add: Emit_def)

text \<open>
  C9. Go leaves the order in which \<^verbatim>\<open>range\<close> visits a map open; \<open>ord\<close> is the order
  taken, for each of the three maps a list of the keys of the map without repetition.
  For any contents of the maps and any such order, the batch \<^verbatim>\<open>Emit\<close> returns is made of
  all entries of the channel announcement map (each key once, in the order visited), then
  all entries of the channel update map, then all entries of the node announcement map,
  and nothing else: its length is the number of entries of the three maps. \<^verbatim>\<open>Emit\<close>
  leaves the maps empty. In a batch filled by \<^verbatim>\<open>AddMsgs\<close> since the last reset each map
  holds messages of its own type only, so the message types come in that order: channel
  announcements, channel updates, node announcements. Whatever lists of keys are taken
  for \<open>ord\<close>, the batch returned is a run of entries of the first map, then of the
  second, then of the third.
\<close>

theorem Emit_order:
  "(rangeOrder (caOrder ord) (channelAnnouncements b) \<and>
    rangeOrder (cuOrder ord) (channelUpdates b) \<and>
    rangeOrder (naOrder ord) (nodeAnnouncements b) \<longrightarrow>
      fst (Emit ord b) =
        map (\<lambda>k. the (channelAnnouncements b k)) (caOrder ord) @
        map (\<lambda>k. the (channelUpdates b k)) (cuOrder ord) @
        map (\<lambda>k. the (nodeAnnouncements b k)) (naOrder ord) \<and>
      set (fst (Emit ord b)) =
        ran (channelAnnouncements b) \<union> ran (channelUpdates b) \<union> ran (nodeAnnouncements b) \<and>
      length (fst (Emit ord b)) = numAnnouncements b) \<and>
   snd (Emit ord b) = reset b \<and>
   batchKinds (AddMsgs msgs (reset d)) \<and>
   sorted (map msgRank (fst (Emit ord (AddMsgs msgs (reset d))))) \<and>
   (\<exists>cas cus nas. fst (Emit ord b) = cas @ cus @ nas \<and>
       set cas \<subseteq> ran (channelAnnouncements b) \<and>
       set cus \<subseteq> ran (channelUpdates b) \<and>
       set nas \<subseteq> ran (nodeAnnouncements b))"
proof -
  have kinds: "batchKinds (AddMsgs msgs (reset d))"
    by (rule batchKinds_AddMsgs[OF batchKinds_reset])
  have srt: "sorted (map msgRank (fst (Emit ord (AddMsgs msgs (reset d)))))"
    by (rule Emit_sorted[OF kinds])
  have full: "fst (Emit ord b) =
        map (\<lambda>k. the (channelAnnouncements b k)) (caOrder ord) @
        map (\<lambda>k. the (channelUpdates b k)) (cuOrder ord) @
        map (\<lambda>k. the (nodeAnnouncements b k)) (naOrder ord) \<and>
      set (fst (Emit ord b)) =
        ran (channelAnnouncements b) \<union> ran (channelUpdates b) \<union> ran (nodeAnnouncements b) \<and>
      length (fst (Emit ord b)) = numAnnouncements b"
    if "rangeOrder (caOrder ord) (channelAnnouncements b)"
      and "rangeOrder (cuOrder ord) (channelUpdates b)"
      and "rangeOrder (naOrder ord) (nodeAnnouncements b)"
    using Emit_map[OF that] Emit_complete[OF that] by simp
  show ?thesis
    using full kinds srt Emit_reset[of ord b] Emit_segments[of ord b] by blast
qed

theorem Emit_order_witness:
  "rangeOrder [chan100]
     (channelAnnouncements (AddMsgs [MsgNodeAnnouncement (nodeAnn 5),
        MsgChannelUpdate (chanUpd100 ourChain 0), MsgChannelAnnouncement (chanAnn100 ourChain)]
        (reset emptyBatch))) \<and>
   rangeOrder [\<lparr>channelID = chan100, flags = 0\<rparr>]
     (channelUpdates (AddMsgs [MsgNodeAnnouncement (nodeAnn 5),
        MsgChannelUpdate (chanUpd100 ourChain 0), MsgChannelAnnouncement (chanAnn100 ourChain)]
        (reset emptyBatch))) \<and>
   rangeOrder [NewVertex alice]
     (nodeAnnouncements (AddMsgs [MsgNodeAnnouncement (nodeAnn 5),
        MsgChannelUpdate (chanUpd100 ourChain 0), MsgChannelAnnouncement (chanAnn100 ourChain)]
        (reset emptyBatch))) \<and>
   Emit \<lparr>caOrder = [chan100], cuOrder = [\<lparr>channelID = chan100, flags = 0\<rparr>],
          naOrder = [NewVertex alice]\<rparr>
     (AddMsgs [MsgNodeAnnouncement (nodeAnn 5),
        MsgChannelUpdate (chanUpd100 ourChain 0), MsgChannelAnnouncement (chanAnn100 ourChain)]
        (reset emptyBatch)) =
     ([MsgChannelAnnouncement (chanAnn100 ourChain), MsgChannelUpdate (chanUpd100 ourChain 0),
       MsgNodeAnnouncement (nodeAnn 5)], reset emptyBatch) \<and>
   numAnnouncements (AddMsgs [MsgNodeAnnouncement (nodeAnn 5),
        MsgChannelUpdate (chanUpd100 ourChain 0), MsgChannelAnnouncement (chanAnn100 ourChain)]
        (reset emptyBatch)) = 3"
  using Emit_order
    [of "\<lparr>caOrder = [chan100], cuOrder = [\<lparr>channelID = chan100, flags = 0\<rparr>],
          naOrder = [NewVertex alice]\<rparr>"
        "AddMsgs [MsgNodeAnnouncement (nodeAnn 5),
           MsgChannelUpdate (chanUpd100 ourChain 0), MsgChannelAnnouncement (chanAnn100 ourChain)]
           (reset emptyBatch)"
        "[]" emptyBatch]
  by (simp add: rangeOrder_def reset_def emptyBatch_def nodeAnn_def chanUpd100_def
      chanAnn100_def numAnnouncements_def prod_eq_iff)

section \<open>Reading the record of calls\<close>

lemma history_logCall [simp]: "history (logCall e d) = history d @ [e]"
  and bestHeight_logCall [simp]: "bestHeight (logCall e d) = bestHeight d"
  and premature_logCall [simp]: "prematureAnnouncements (logCall e d) = prematureAnnouncements d"
  and waitingProofs_logCall [simp]: "waitingProofs (logCall e d) = waitingProofs d"
  by (simp_all add: logCall_def)

lemma history_errSend [simp]: "history (errSend n e d) = history d @ [ErrChanSend (err n) e]"
  and bestHeight_errSend [simp]: "bestHeight (errSend n e d) = bestHeight d"
  and premature_errSend [simp]: "prematureAnnouncements (errSend n e d) = prematureAnnouncements d"
  and waitingProofs_errSend [simp]: "waitingProofs (errSend n e d) = waitingProofs d"
  by (simp_all add: errSend_def)

lemma calls_simps [simp]:
  "calls k [] = []"
  "calls k (xs @ ys) = calls k xs @ calls k ys"
  "calls k (ev # evs) = (if kindOf ev = k then ev # calls k evs else calls k evs)"
  by (simp_all add: calls_def)

lemma outcomes_simps [simp]:
  "outcomes c [] = []"
  "outcomes c (xs @ ys) = outcomes c xs @ outcomes c ys"
  "outcomes c (ev # evs) = (case outcomeOn c ev of None \<Rightarrow> outcomes c evs | Some e \<Rightarrow> e # outcomes c evs)"
  by (simp_all add: outcomes_def List.map_filter_def split: option.split)

lemma newEvents_app [simp]: "history d' = history d @ evs \<Longrightarrow> newEvents d d' = evs"
  by (simp add: newEvents_def)

section \<open>Foreign chain hash\<close>

text \<open>
  C1. A channel announcement or channel update whose chain hash is not the configured one
  is dropped: \<^verbatim>\<open>processNetworkAnnouncement\<close> returns nil and leaves the gossiper as it
  was. So the router is not called, nothing is buffered as premature and nothing is
  returned for the batch; and nothing is sent on the envelope's result channel either,
  where every other rejecting branch of the function sends its error.
\<close>

theorem foreign_chain_dropped_silently:
  "(msg nMsg = MsgChannelAnnouncement ca \<and> ca_ChainHash ca \<noteq> ChainHash cfg \<longrightarrow>
      processNetworkAnnouncement cfg imp nMsg d = ([], d)) \<and>
   (msg nMsg = MsgChannelUpdate cu \<and> cu_ChainHash cu \<noteq> ChainHash cfg \<longrightarrow>
      processNetworkAnnouncement cfg imp nMsg d = ([], d))"
  by (simp add: processNetworkAnnouncement_def processChannelAnnouncement_def
      processChannelUpdate_def)

theorem foreign_chain_dropped_silently_witness:
  "ca_ChainHash (chanAnn100 foreignChain) \<noteq> ChainHash knownConfig \<and>
   processNetworkAnnouncement knownConfig acceptingImports
     (envelope carol (MsgChannelAnnouncement (chanAnn100 foreignChain)) True 0) (gossiperAt 100)
     = ([], gossiperAt 100) \<and>
   outcomes 0 (history (snd (processNetworkAnnouncement knownConfig acceptingImports
     (envelope carol (MsgChannelAnnouncement (chanAnn100 foreignChain)) True 0) (gossiperAt 100)))) = [] \<and>
   cu_ChainHash (chanUpd100 foreignChain 0) \<noteq> ChainHash knownConfig \<and>
   processNetworkAnnouncement knownConfig acceptingImports
     (envelope carol (MsgChannelUpdate (chanUpd100 foreignChain 0)) True 0) (gossiperAt 100)
     = ([], gossiperAt 100)"
  using foreign_chain_dropped_silently
    [where nMsg = "envelope carol (MsgChannelAnnouncement (chanAnn100 foreignChain)) True 0"
       and ca = "chanAnn100 foreignChain" and cfg = knownConfig
       and imp = acceptingImports and d = "gossiperAt 100"]
    foreign_chain_dropped_silently
    [where nMsg = "envelope carol (MsgChannelUpdate (chanUpd100 foreignChain 0)) True 0"
       and cu = "chanUpd100 foreignChain 0" and cfg = knownConfig
       and imp = acceptingImports and d = "gossiperAt 100"]
  by (simp add: envelope_def chanAnn100_def chanUpd100_def knownConfig_def foreignChain_def
      ourChain_def gossiperAt_def)

section \<open>Announcement signatures: the maturity gate\<close>

lemma quiet_refl: "quiet d d"
  by (simp add: quiet_def)

lemma quiet_logCall: "kindOf ev \<noteq> ResultSend \<Longrightarrow> quiet d d1 \<Longrightarrow> quiet d (logCall ev d1)"
  by (auto simp: quiet_def)

lemma quiet_errSend: "quiet d d1 \<Longrightarrow> delivers nMsg d (errSend nMsg e d1)"
  by (auto simp: quiet_def delivers_def)

lemma quiet_waitingProofs_upd:
  "quiet d d1 \<Longrightarrow> quiet d (d1\<lparr>waitingProofs := w\<rparr>)"
  by (auto simp: quiet_def)

lemma quiet_Add: "quiet d d1 \<Longrightarrow> quiet d (snd (waitingProofs_Add cfg imp p d1))"
  by (simp add: waitingProofs_Add_def quiet_logCall quiet_waitingProofs_upd split: option.split)

lemma quiet_Get: "quiet d d1 \<Longrightarrow> quiet d (snd (waitingProofs_Get cfg k d1))"
  by (simp add: waitingProofs_Get_def quiet_logCall split: option.split)

lemma quiet_Remove: "quiet d d1 \<Longrightarrow> quiet d (snd (waitingProofs_Remove cfg k d1))"
  by (simp add: waitingProofs_Remove_def quiet_logCall quiet_waitingProofs_upd split: option.split)

lemma storeHalfProof_delivers:
  assumes "quiet d d1"
  shows "delivers nMsg d (snd (storeHalfProof cfg imp nMsg m chanInfo isFirst p d1))"
proof -
  obtain r d2 where a: "waitingProofs_Add cfg imp p d1 = (r, d2)" by (cases "waitingProofs_Add cfg imp p d1")
  have q: "quiet d d2" using quiet_Add[OF assms, of cfg imp p] a by simp
  show ?thesis
    unfolding storeHalfProof_def Let_def a
    by (cases r) (simp_all add: quiet_errSend quiet_logCall q)
qed

lemma assembleProof_delivers:
  assumes "quiet d d1"
  shows "delivers nMsg d (snd (assembleProof cfg imp nMsg m chanInfo e1 e2 isFirst p opp d1))"
proof -
  obtain chanAnn e1Ann e2Ann where c:
    "createChanAnnouncement imp (assembleDbProof isFirst m opp) chanInfo e1 e2 = (chanAnn, e1Ann, e2Ann)"
    by (cases "createChanAnnouncement imp (assembleDbProof isFirst m opp) chanInfo e1 e2") auto
  let ?d1 = "logCall (ValidateChannelAnnCall chanAnn) d1"
  let ?d2 = "logCall (AddProofCall (as_ShortChannelID m) (assembleDbProof isFirst m opp)) ?d1"
  have q1: "quiet d ?d1" by (simp add: quiet_logCall assms)
  have q2: "quiet d ?d2" by (simp add: quiet_logCall q1)
  obtain r d3 where rm: "waitingProofs_Remove cfg (OppositeKey imp p) ?d2 = (r, d3)"
    by (cases "waitingProofs_Remove cfg (OppositeKey imp p) ?d2")
  have q3: "quiet d d3" using quiet_Remove[OF q2, of cfg "OppositeKey imp p"] rm by simp
  show ?thesis
    unfolding assembleProof_def Let_def c
    by (simp add: rm quiet_errSend quiet_logCall q1 q2 q3 split: option.split)
qed

lemma processAnnounceSignatures_mature:
  assumes "\<not> isPremature d (as_ShortChannelID m) (ProofMatureDelta cfg)"
  shows "delivers nMsg d (snd (processAnnounceSignatures cfg imp nMsg m d))"
proof -
  let ?d1 = "logCall (GetChannelByIDCall (as_ShortChannelID m)) d"
  let ?p = "NewWaitingProof (isRemote nMsg) m"
  have q1: "quiet d ?d1" by (simp add: quiet_logCall quiet_refl)
  obtain r d2 where a: "waitingProofs_Add cfg imp ?p ?d1 = (r, d2)"
    by (cases "waitingProofs_Add cfg imp ?p ?d1")
  have qa: "quiet d d2" using quiet_Add[OF q1, of cfg imp ?p] a by simp
  obtain g d3 where g: "waitingProofs_Get cfg (OppositeKey imp ?p) ?d1 = (g, d3)"
    by (cases "waitingProofs_Get cfg (OppositeKey imp ?p) ?d1")
  have qg: "quiet d d3" using quiet_Get[OF q1, of cfg "OppositeKey imp ?p"] g by simp
  show ?thesis
    unfolding processAnnounceSignatures_def Let_def
    using assms
    by (simp add: a g quiet_errSend q1 qa qg storeHalfProof_delivers assembleProof_delivers
          split: sum.split option.split prod.split)
qed

lemma outcomeOn_None: "kindOf a \<noteq> ResultSend \<Longrightarrow> outcomeOn c a = None"
  by (cases a) auto

lemma outcomes_quiet: "calls ResultSend evs = [] \<Longrightarrow> outcomes c evs = []"
  by (induction evs) (auto simp: outcomeOn_None split: if_splits)

lemma delivers_outcomes:
  "delivers nMsg d d' \<Longrightarrow> \<exists>e. outcomes (err nMsg) (newEvents d d') = [e]"
  by (auto simp: delivers_def outcomes_quiet)

text \<open>
  C4, the claim as stated fails: with best height 100 and a delta of 6 confirmations, a
  proof for a channel at height 100 is deferred (buffered under height 106), although
  100 does not exceed 100 + 6.
\<close>

theorem announceSignatures_claimed_gate_counterexample:
  "\<not> (BlockHeight chan100 > bestHeight (gossiperAt 100) + ProofMatureDelta knownConfig) \<and>
   processNetworkAnnouncement knownConfig acceptingImports
     (envelope alice (MsgAnnounceSignatures (annSigs100 1)) True 0) (gossiperAt 100) =
     ([], (gossiperAt 100)\<lparr>prematureAnnouncements :=
             [106 \<mapsto> [envelope alice (MsgAnnounceSignatures (annSigs100 1)) True 0]]\<rparr>)"
  by (simp add: processNetworkAnnouncement_def processAnnounceSignatures_def isPremature_def
      envelope_def annSigs100_def chan100_def knownConfig_def gossiperAt_def appendPremature_def
      prematureAt_def)

text \<open>
  C4, amended. An \<^verbatim>\<open>AnnounceSignatures\<close> is deferred exactly when block height plus
  \<^verbatim>\<open>ProofMatureDelta\<close> (a 32-bit sum) exceeds the best known height; it is then
  buffered under that sum and nothing else happens. Otherwise it is processed at once:
  the premature map stays as it is and exactly one outcome is sent on the result channel.
\<close>

theorem announceSignatures_deferred_iff:
  assumes "msg nMsg = MsgAnnounceSignatures m"
    and "needBlockHeight = BlockHeight (as_ShortChannelID m) + ProofMatureDelta cfg"
    and "r = processNetworkAnnouncement cfg imp nMsg d"
  shows "(needBlockHeight > bestHeight d \<longrightarrow>
            r = ([], appendPremature needBlockHeight nMsg d)) \<and>
         (\<not> needBlockHeight > bestHeight d \<longrightarrow>
            prematureAnnouncements (snd r) = prematureAnnouncements d \<and>
            (\<exists>e. outcomes (err nMsg) (newEvents d (snd r)) = [e]))"
proof (cases "needBlockHeight > bestHeight d")
  case True
  then show ?thesis using assms
    by (simp add: processNetworkAnnouncement_def processAnnounceSignatures_def isPremature_def)
next
  case False
  hence np: "\<not> isPremature d (as_ShortChannelID m) (ProofMatureDelta cfg)"
    using assms(2) by (simp add: isPremature_def)
  have r: "r = processAnnounceSignatures cfg imp nMsg m d"
    using assms by (simp add: processNetworkAnnouncement_def)
  have dl: "delivers nMsg d (snd r)"
    unfolding r by (rule processAnnounceSignatures_mature[OF np])
  show ?thesis using False dl delivers_outcomes[OF dl] by (simp add: delivers_def)
qed


theorem announceSignatures_deferred_iff_witness:
  "BlockHeight (as_ShortChannelID (annSigs100 1)) + ProofMatureDelta knownConfig = 106 \<and>
   (106 :: 32 word) > bestHeight (gossiperAt 100) \<and>
   processNetworkAnnouncement knownConfig acceptingImports
     (envelope alice (MsgAnnounceSignatures (annSigs100 1)) True 0) (gossiperAt 100) =
     ([], appendPremature 106 (envelope alice (MsgAnnounceSignatures (annSigs100 1)) True 0)
            (gossiperAt 100)) \<and>
   \<not> (106 :: 32 word) > bestHeight (gossiperAt 106) \<and>
   prematureAnnouncements (snd (processNetworkAnnouncement knownConfig acceptingImports
     (envelope alice (MsgAnnounceSignatures (annSigs100 1)) True 0) (gossiperAt 106))) =
     prematureAnnouncements (gossiperAt 106) \<and>
   (\<exists>e. outcomes (err (envelope alice (MsgAnnounceSignatures (annSigs100 1)) True 0))
      (newEvents (gossiperAt 106) (snd (processNetworkAnnouncement knownConfig acceptingImports
        (envelope alice (MsgAnnounceSignatures (annSigs100 1)) True 0) (gossiperAt 106)))) = [e])"
proof -
  have n: "(106 :: 32 word) = BlockHeight (as_ShortChannelID (annSigs100 1)) + ProofMatureDelta knownConfig"
    by (simp add: annSigs100_def chan100_def knownConfig_def)
  have m: "msg (envelope alice (MsgAnnounceSignatures (annSigs100 1)) True 0) =
             MsgAnnounceSignatures (annSigs100 1)"
    by (simp add: envelope_def)
  have a: "(106 :: 32 word) > bestHeight (gossiperAt 100)" by (simp add: gossiperAt_def)
  have b: "\<not> (106 :: 32 word) > bestHeight (gossiperAt 106)" by (simp add: gossiperAt_def)
  show ?thesis
    using announceSignatures_deferred_iff[OF m n refl, where imp = acceptingImports and d = "gossiperAt 100"]
      announceSignatures_deferred_iff[OF m n refl, where imp = acceptingImports and d = "gossiperAt 106"]
      a b n
    by simp
qed

section \<open>Announcement signatures: the three ways a mature half ends\<close>

text \<open>
  For a half that is not premature, whose channel the router knows and whose sender is one
  of the channel's two nodes: the opposite half is stored and the rebuilt announcement
  fails its check; the opposite half is stored and all goes well; no opposite half is
  stored.
\<close>

lemma processAnnounceSignatures_invalid:
  assumes mature: "\<not> isPremature d (as_ShortChannelID m) (ProofMatureDelta cfg)"
    and known: "Router_GetChannelByID cfg (history d) (as_ShortChannelID m) = Inr (chanInfo, e1, e2)"
    and first: "isFirstNode = (SerializeCompressed (peer nMsg) = SerializeCompressed (NodeKey1 chanInfo))"
    and party: "isFirstNode \<or> SerializeCompressed (peer nMsg) = SerializeCompressed (NodeKey2 chanInfo)"
    and p: "p = NewWaitingProof (isRemote nMsg) m"
    and get: "DB_Get cfg (history d @ [GetChannelByIDCall (as_ShortChannelID m)]) (OppositeKey imp p) = None"
    and opp: "waitingProofs d (OppositeKey imp p) = Some oppositeProof"
    and ann: "createChanAnnouncement imp (assembleDbProof isFirstNode m oppositeProof) chanInfo e1 e2 =
                (chanAnn, e1Ann, e2Ann)"
    and invalid: "validateChannelAnn imp chanAnn = Some e"
  shows "processAnnounceSignatures cfg imp nMsg m d =
           ([], d\<lparr>history := history d @
                   [GetChannelByIDCall (as_ShortChannelID m),
                    ProofGetCall (OppositeKey imp p),
                    ValidateChannelAnnCall chanAnn,
                    ErrChanSend (err nMsg) (Some (ProofNotValid (ToUint64 imp (as_ShortChannelID m)) e))]\<rparr>)"
proof -
  have g: "waitingProofs_Get cfg (OppositeKey imp p) (logCall (GetChannelByIDCall (as_ShortChannelID m)) d)
            = (Inr oppositeProof, logCall (ProofGetCall (OppositeKey imp p))
                 (logCall (GetChannelByIDCall (as_ShortChannelID m)) d))"
    by (simp add: waitingProofs_Get_def get opp)
  note f = first[symmetric]
  note party' = party[THEN eqTrueI]
  show ?thesis
    unfolding processAnnounceSignatures_def Let_def known sum.case prod.case
    by (simp add: f party' mature p[symmetric] g assembleProof_def ann invalid)
qed

lemma processAnnounceSignatures_assembled:
  assumes mature: "\<not> isPremature d (as_ShortChannelID m) (ProofMatureDelta cfg)"
    and known: "Router_GetChannelByID cfg (history d) (as_ShortChannelID m) = Inr (chanInfo, e1, e2)"
    and first: "isFirstNode = (SerializeCompressed (peer nMsg) = SerializeCompressed (NodeKey1 chanInfo))"
    and party: "isFirstNode \<or> SerializeCompressed (peer nMsg) = SerializeCompressed (NodeKey2 chanInfo)"
    and p: "p = NewWaitingProof (isRemote nMsg) m"
    and get: "DB_Get cfg (history d @ [GetChannelByIDCall (as_ShortChannelID m)]) (OppositeKey imp p) = None"
    and opp: "waitingProofs d (OppositeKey imp p) = Some oppositeProof"
    and db: "dbProof = assembleDbProof isFirstNode m oppositeProof"
    and ann: "createChanAnnouncement imp dbProof chanInfo e1 e2 = (chanAnn, e1Ann, e2Ann)"
    and valid: "validateChannelAnn imp chanAnn = None"
    and h3: "h3 = history d @ [GetChannelByIDCall (as_ShortChannelID m),
                    ProofGetCall (OppositeKey imp p), ValidateChannelAnnCall chanAnn]"
    and added: "Router_AddProof cfg h3 (as_ShortChannelID m) dbProof = None"
    and removed: "DB_Remove cfg (h3 @ [AddProofCall (as_ShortChannelID m) dbProof]) (OppositeKey imp p) = None"
  shows "snd (processAnnounceSignatures cfg imp nMsg m d) =
           d\<lparr>waitingProofs := (waitingProofs d)(OppositeKey imp p := None),
              history := h3 @
                   [AddProofCall (as_ShortChannelID m) dbProof,
                    ProofRemoveCall (OppositeKey imp p)] @
                   (if \<not> isRemote nMsg
                    then [SendToPeerCall (remotePeerOf isFirstNode chanInfo) [MsgAnnounceSignatures m]]
                    else []) @
                   [ErrChanSend (err nMsg) None]\<rparr>"
    and "fst (processAnnounceSignatures cfg imp nMsg m d) \<noteq> []"
proof -
  have g: "waitingProofs_Get cfg (OppositeKey imp p) (logCall (GetChannelByIDCall (as_ShortChannelID m)) d)
            = (Inr oppositeProof, logCall (ProofGetCall (OppositeKey imp p))
                 (logCall (GetChannelByIDCall (as_ShortChannelID m)) d))"
    by (simp add: waitingProofs_Get_def get opp)
  note f = first[symmetric]
  note party' = party[THEN eqTrueI]
  have rm: "waitingProofs_Remove cfg (OppositeKey imp p)
              (logCall (AddProofCall (as_ShortChannelID m) dbProof)
                (logCall (ValidateChannelAnnCall chanAnn)
                  (logCall (ProofGetCall (OppositeKey imp p))
                    (logCall (GetChannelByIDCall (as_ShortChannelID m)) d)))) =
             (None, logCall (ProofRemoveCall (OppositeKey imp p))
               ((logCall (AddProofCall (as_ShortChannelID m) dbProof)
                (logCall (ValidateChannelAnnCall chanAnn)
                  (logCall (ProofGetCall (OppositeKey imp p))
                    (logCall (GetChannelByIDCall (as_ShortChannelID m)) d))))
                \<lparr>waitingProofs := (waitingProofs d)(OppositeKey imp p := None)\<rparr>))"
    using removed by (simp add: waitingProofs_Remove_def h3)
  have ad: "Router_AddProof cfg (history d @ [GetChannelByIDCall (as_ShortChannelID m),
                    ProofGetCall (OppositeKey imp p), ValidateChannelAnnCall chanAnn])
              (as_ShortChannelID m) dbProof = None"
    using added h3 by simp
  show "snd (processAnnounceSignatures cfg imp nMsg m d) =
           d\<lparr>waitingProofs := (waitingProofs d)(OppositeKey imp p := None),
              history := h3 @
                   [AddProofCall (as_ShortChannelID m) dbProof,
                    ProofRemoveCall (OppositeKey imp p)] @
                   (if \<not> isRemote nMsg
                    then [SendToPeerCall (remotePeerOf isFirstNode chanInfo) [MsgAnnounceSignatures m]]
                    else []) @
                   [ErrChanSend (err nMsg) None]\<rparr>"
    unfolding processAnnounceSignatures_def Let_def known sum.case prod.case
    by (simp add: f party' mature p[symmetric] g assembleProof_def db[symmetric]
          ann valid ad rm h3)
       (simp add: logCall_def errSend_def Let_def split: option.split)
  show "fst (processAnnounceSignatures cfg imp nMsg m d) \<noteq> []"
    unfolding processAnnounceSignatures_def Let_def known sum.case prod.case
    by (simp add: f party' mature p[symmetric] g assembleProof_def db[symmetric]
          ann valid ad rm Let_def split: option.split)
qed

lemma processAnnounceSignatures_stored:
  assumes mature: "\<not> isPremature d (as_ShortChannelID m) (ProofMatureDelta cfg)"
    and known: "Router_GetChannelByID cfg (history d) (as_ShortChannelID m) = Inr (chanInfo, e1, e2)"
    and first: "isFirstNode = (SerializeCompressed (peer nMsg) = SerializeCompressed (NodeKey1 chanInfo))"
    and party: "isFirstNode \<or> SerializeCompressed (peer nMsg) = SerializeCompressed (NodeKey2 chanInfo)"
    and p: "p = NewWaitingProof (isRemote nMsg) m"
    and get: "DB_Get cfg (history d @ [GetChannelByIDCall (as_ShortChannelID m)]) (OppositeKey imp p) = None"
    and opp: "waitingProofs d (OppositeKey imp p) = None"
    and add: "DB_Add cfg (history d @ [GetChannelByIDCall (as_ShortChannelID m),
                 ProofGetCall (OppositeKey imp p)]) p = None"
  shows "processAnnounceSignatures cfg imp nMsg m d =
           ([], d\<lparr>waitingProofs := (waitingProofs d)(Key imp p \<mapsto> p),
                   history := history d @
                     [GetChannelByIDCall (as_ShortChannelID m),
                      ProofGetCall (OppositeKey imp p),
                      ProofAddCall p] @
                     (if \<not> isRemote nMsg
                      then [SendToPeerCall (remotePeerOf isFirstNode chanInfo) [MsgAnnounceSignatures m]]
                      else []) @
                     [ErrChanSend (err nMsg) None]\<rparr>)"
proof -
  have g: "waitingProofs_Get cfg (OppositeKey imp p) (logCall (GetChannelByIDCall (as_ShortChannelID m)) d)
            = (Inl ErrWaitingProofNotFound, logCall (ProofGetCall (OppositeKey imp p))
                 (logCall (GetChannelByIDCall (as_ShortChannelID m)) d))"
    by (simp add: waitingProofs_Get_def get opp)
  note f = first[symmetric]
  note party' = party[THEN eqTrueI]
  have a: "waitingProofs_Add cfg imp p (logCall (ProofGetCall (OppositeKey imp p))
                 (logCall (GetChannelByIDCall (as_ShortChannelID m)) d)) =
           (None, logCall (ProofAddCall p)
              ((logCall (ProofGetCall (OppositeKey imp p))
                 (logCall (GetChannelByIDCall (as_ShortChannelID m)) d))
               \<lparr>waitingProofs := (waitingProofs d)(Key imp p \<mapsto> p)\<rparr>))"
    using add by (simp add: waitingProofs_Add_def)
  show ?thesis
    unfolding processAnnounceSignatures_def Let_def known sum.case prod.case
    by (simp add: f party' mature p[symmetric] g storeHalfProof_def a)
qed

section \<open>Announcement signatures: pairing the halves\<close>

lemmas run_defs =
  processNetworkAnnouncement_def processAnnounceSignatures_def storeHalfProof_def
  assembleProof_def assembleDbProof_def waitingProofs_Add_def waitingProofs_Get_def
  waitingProofs_Remove_def isPremature_def Key_def OppositeKey_def NewWaitingProof_def
  remotePeerOf_def logCall_def errSend_def Let_def

lemmas input_defs =
  envelope_def remoteHalf_def localHalf_def annSigs100_def chan100_def gossiperAt_def
  knownConfig_def lateConfig_def acceptingImports_def rejectingImports_def chanInfo100_def
  alice_def bob_def carol_def

lemma halfStored_eq:
  "halfStored =
     \<lparr>bestHeight = 106, prematureAnnouncements = Map.empty,
      waitingProofs = [(toUint64 chan100, True) \<mapsto> NewWaitingProof True (annSigs100 2)],
      history = [GetChannelByIDCall chan100, ProofGetCall (toUint64 chan100, False),
                 ProofAddCall (NewWaitingProof True (annSigs100 2)), ErrChanSend 1 None]\<rparr>"
  by (simp add: halfStored_def run_defs input_defs)

lemma bothOrphaned_eq:
  "bothOrphaned =
     \<lparr>bestHeight = 106, prematureAnnouncements = Map.empty,
      waitingProofs = [(toUint64 chan100, True) \<mapsto> NewWaitingProof True (annSigs100 2),
                       (toUint64 chan100, False) \<mapsto> NewWaitingProof False (annSigs100 1)],
      history = [GetChannelByIDCall chan100,
                 ProofAddCall (NewWaitingProof True (annSigs100 2)), ErrChanSend 1 None,
                 GetChannelByIDCall chan100,
                 ProofAddCall (NewWaitingProof False (annSigs100 1)), ErrChanSend 2 None]\<rparr>"
  by (simp add: bothOrphaned_def run_defs input_defs)

lemma Key_neq_OppositeKey: "Key imp p \<noteq> OppositeKey imp p"
  by (simp add: Key_def OppositeKey_def)

text \<open>
  C3, the claim as stated fails where it lets each half be of either origin. The router
  knows the channel between alice and bob; bob's half and alice's half of its proof both
  arrive from the network, none premature, nothing failing. A half is stored under, and
  looked up by, the channel id and the origin, so the second half looks for a local half,
  finds none and is stored over the first: after both halves \<^verbatim>\<open>AddProof\<close> and
  \<^verbatim>\<open>Remove\<close> were never called, and the store holds alice's half where bob's was.
\<close>

theorem both_halves_same_origin_counterexample:
  "msg remoteHalf = MsgAnnounceSignatures (annSigs100 2) \<and>
   msg aliceRemoteHalf = MsgAnnounceSignatures (annSigs100 1) \<and>
   as_ShortChannelID (annSigs100 2) = chan100 \<and> as_ShortChannelID (annSigs100 1) = chan100 \<and>
   Router_GetChannelByID knownConfig [] chan100 = Inr (chanInfo100, None, None) \<and>
   peer remoteHalf = NodeKey2 chanInfo100 \<and> peer aliceRemoteHalf = NodeKey1 chanInfo100 \<and>
   isRemote remoteHalf \<and> isRemote aliceRemoteHalf \<and>
   waitingProofs
     (snd (processNetworkAnnouncement knownConfig acceptingImports remoteHalf (gossiperAt 106)))
     (toUint64 chan100, True) = Some (NewWaitingProof True (annSigs100 2)) \<and>
   calls RouterAddProof (history
     (snd (processNetworkAnnouncement knownConfig acceptingImports aliceRemoteHalf
        (snd (processNetworkAnnouncement knownConfig acceptingImports remoteHalf (gossiperAt 106)))))) = [] \<and>
   calls StoreRemove (history
     (snd (processNetworkAnnouncement knownConfig acceptingImports aliceRemoteHalf
        (snd (processNetworkAnnouncement knownConfig acceptingImports remoteHalf (gossiperAt 106)))))) = [] \<and>
   calls StoreAdd (history
     (snd (processNetworkAnnouncement knownConfig acceptingImports aliceRemoteHalf
        (snd (processNetworkAnnouncement knownConfig acceptingImports remoteHalf (gossiperAt 106)))))) =
     [ProofAddCall (NewWaitingProof True (annSigs100 2)),
      ProofAddCall (NewWaitingProof True (annSigs100 1))] \<and>
   outcomes 1 (history
     (snd (processNetworkAnnouncement knownConfig acceptingImports aliceRemoteHalf
        (snd (processNetworkAnnouncement knownConfig acceptingImports remoteHalf (gossiperAt 106)))))) = [None] \<and>
   outcomes 3 (history
     (snd (processNetworkAnnouncement knownConfig acceptingImports aliceRemoteHalf
        (snd (processNetworkAnnouncement knownConfig acceptingImports remoteHalf (gossiperAt 106)))))) = [None] \<and>
   waitingProofs
     (snd (processNetworkAnnouncement knownConfig acceptingImports aliceRemoteHalf
        (snd (processNetworkAnnouncement knownConfig acceptingImports remoteHalf (gossiperAt 106)))))
     (toUint64 chan100, True) = Some (NewWaitingProof True (annSigs100 1)) \<and>
   waitingProofs
     (snd (processNetworkAnnouncement knownConfig acceptingImports aliceRemoteHalf
        (snd (processNetworkAnnouncement knownConfig acceptingImports remoteHalf (gossiperAt 106)))))
     (toUint64 chan100, False) = None"
  by (simp add: run_defs input_defs aliceRemoteHalf_def)

text \<open>
  C3, amended: the two halves are of opposite origins, one local and one remote. A
  channel the router knows; its two halves of the proof, one local and one remote, in
  either order, each sent by one of the channel's nodes; none premature; no half of the
  origin opposite to the first half stored beforehand; a database and a router that do
  not fail; a rebuilt announcement that passes its check. After the first half alone: no
  \<^verbatim>\<open>AddProof\<close> call, and one record persisted (one \<^verbatim>\<open>Add\<close>, under the half's own
  key). After the second half: exactly one \<^verbatim>\<open>AddProof\<close> call, exactly one \<^verbatim>\<open>Remove\<close>,
  under the second half's opposite key (the key of the first half), and no further
  \<^verbatim>\<open>Add\<close>.
\<close>

theorem both_halves_one_AddProof:
  assumes msgs: "msg n1 = MsgAnnounceSignatures m1" "msg n2 = MsgAnnounceSignatures m2"
    and chan: "as_ShortChannelID m1 = chanID" "as_ShortChannelID m2 = chanID"
    and origins: "isRemote n2 = (\<not> isRemote n1)"
    and mature: "\<not> isPremature d chanID (ProofMatureDelta cfg)"
    and known: "\<forall>h. Router_GetChannelByID cfg h chanID = Inr (chanInfo, e1, e2)"
    and party1: "SerializeCompressed (peer n1) = SerializeCompressed (NodeKey1 chanInfo) \<or>
                 SerializeCompressed (peer n1) = SerializeCompressed (NodeKey2 chanInfo)"
    and first2: "isFirstNode2 = (SerializeCompressed (peer n2) = SerializeCompressed (NodeKey1 chanInfo))"
    and party2: "isFirstNode2 \<or> SerializeCompressed (peer n2) = SerializeCompressed (NodeKey2 chanInfo)"
    and db: "\<forall>h x. DB_Add cfg h x = None" "\<forall>h k. DB_Get cfg h k = None"
            "\<forall>h k. DB_Remove cfg h k = None"
    and p1: "p1 = NewWaitingProof (isRemote n1) m1"
    and p2: "p2 = NewWaitingProof (isRemote n2) m2"
    and fresh: "waitingProofs d (OppositeKey imp p1) = None"
    and dbProof: "dbProof = assembleDbProof isFirstNode2 m2 p1"
    and valid: "validateChannelAnn imp (fst (createChanAnnouncement imp dbProof chanInfo e1 e2)) = None"
    and added: "\<forall>h. Router_AddProof cfg h chanID dbProof = None"
    and r1: "r1 = processNetworkAnnouncement cfg imp n1 d"
    and r2: "r2 = processNetworkAnnouncement cfg imp n2 (snd r1)"
  shows "calls RouterAddProof (newEvents d (snd r1)) = [] \<and>
         calls StoreAdd (newEvents d (snd r1)) = [ProofAddCall p1] \<and>
         calls StoreRemove (newEvents d (snd r1)) = [] \<and>
         waitingProofs (snd r1) = (waitingProofs d)(Key imp p1 \<mapsto> p1) \<and>
         calls RouterAddProof (newEvents d (snd r2)) = [AddProofCall chanID dbProof] \<and>
         calls StoreRemove (newEvents d (snd r2)) = [ProofRemoveCall (OppositeKey imp p2)] \<and>
         calls StoreAdd (newEvents d (snd r2)) = [ProofAddCall p1] \<and>
         OppositeKey imp p2 = Key imp p1"
proof -
  define isFirstNode1 where
    "isFirstNode1 = (SerializeCompressed (peer n1) = SerializeCompressed (NodeKey1 chanInfo))"
  have party1': "isFirstNode1 \<or> SerializeCompressed (peer n1) = SerializeCompressed (NodeKey2 chanInfo)"
    using party1 by (simp add: isFirstNode1_def)
  have m1: "\<not> isPremature d (as_ShortChannelID m1) (ProofMatureDelta cfg)"
    using mature chan by simp
  have e1: "r1 = processAnnounceSignatures cfg imp n1 m1 d"
    using msgs r1 by (simp add: processNetworkAnnouncement_def)
  have k1: "Router_GetChannelByID cfg (history d) (as_ShortChannelID m1) = Inr (chanInfo, e1, e2)"
    using known chan by simp
  note s1 = processAnnounceSignatures_stored[OF m1 k1 isFirstNode1_def party1' p1
      db(2)[rule_format] fresh db(1)[rule_format]]
  have d1: "snd r1 = d\<lparr>waitingProofs := (waitingProofs d)(Key imp p1 \<mapsto> p1),
                history := history d @
                  [GetChannelByIDCall (as_ShortChannelID m1), ProofGetCall (OppositeKey imp p1),
                   ProofAddCall p1] @
                  (if \<not> isRemote n1
                   then [SendToPeerCall (remotePeerOf isFirstNode1 chanInfo) [MsgAnnounceSignatures m1]]
                   else []) @
                  [ErrChanSend (err n1) None]\<rparr>"
    unfolding e1 s1 by simp
  have keys: "OppositeKey imp p2 = Key imp p1"
    using origins chan by (simp add: OppositeKey_def Key_def p1 p2 NewWaitingProof_def)
  have first: "calls RouterAddProof (newEvents d (snd r1)) = [] \<and>
         calls StoreAdd (newEvents d (snd r1)) = [ProofAddCall p1] \<and>
         calls StoreRemove (newEvents d (snd r1)) = [] \<and>
         waitingProofs (snd r1) = (waitingProofs d)(Key imp p1 \<mapsto> p1)"
    unfolding d1 by (simp add: newEvents_def)
  have m2: "\<not> isPremature (snd r1) (as_ShortChannelID m2) (ProofMatureDelta cfg)"
    using mature chan unfolding d1 by (simp add: isPremature_def)
  have e2: "r2 = processAnnounceSignatures cfg imp n2 m2 (snd r1)"
    using msgs r2 by (simp add: processNetworkAnnouncement_def)
  have k2: "Router_GetChannelByID cfg (history (snd r1)) (as_ShortChannelID m2) = Inr (chanInfo, e1, e2)"
    using known chan by simp
  have opp: "waitingProofs (snd r1) (OppositeKey imp p2) = Some p1"
    unfolding d1 keys by simp
  obtain chanAnn e1Ann e2Ann where ann:
    "createChanAnnouncement imp dbProof chanInfo e1 e2 = (chanAnn, e1Ann, e2Ann)"
    by (cases "createChanAnnouncement imp dbProof chanInfo e1 e2") auto
  have v: "validateChannelAnn imp chanAnn = None" using valid ann by simp
  have ad: "Router_AddProof cfg h (as_ShortChannelID m2) dbProof = None" for h
    using added chan by simp
  note s2 = processAnnounceSignatures_assembled(1)[OF m2 k2 first2 party2 p2
      db(2)[rule_format] opp dbProof ann v refl ad db(3)[rule_format]]
  have second: "calls RouterAddProof (newEvents d (snd r2)) = [AddProofCall chanID dbProof] \<and>
         calls StoreRemove (newEvents d (snd r2)) = [ProofRemoveCall (OppositeKey imp p2)] \<and>
         calls StoreAdd (newEvents d (snd r2)) = [ProofAddCall p1]"
    unfolding e2 s2 unfolding d1
    using chan by (simp add: newEvents_def)
  show ?thesis using first second keys by simp
qed

theorem both_halves_one_AddProof_witness:
  "calls RouterAddProof (newEvents (gossiperAt 106)
     (snd (processNetworkAnnouncement knownConfig acceptingImports remoteHalf (gossiperAt 106)))) = [] \<and>
   calls StoreAdd (newEvents (gossiperAt 106)
     (snd (processNetworkAnnouncement knownConfig acceptingImports remoteHalf (gossiperAt 106)))) =
     [ProofAddCall (NewWaitingProof True (annSigs100 2))] \<and>
   calls RouterAddProof (newEvents (gossiperAt 106)
     (snd (processNetworkAnnouncement knownConfig acceptingImports localHalf
        (snd (processNetworkAnnouncement knownConfig acceptingImports remoteHalf (gossiperAt 106)))))) =
     [AddProofCall chan100
        (assembleDbProof True (annSigs100 1) (NewWaitingProof True (annSigs100 2)))] \<and>
   calls StoreRemove (newEvents (gossiperAt 106)
     (snd (processNetworkAnnouncement knownConfig acceptingImports localHalf
        (snd (processNetworkAnnouncement knownConfig acceptingImports remoteHalf (gossiperAt 106)))))) =
     [ProofRemoveCall (toUint64 chan100, True)] \<and>
   calls StoreAdd (newEvents (gossiperAt 106)
     (snd (processNetworkAnnouncement knownConfig acceptingImports localHalf
        (snd (processNetworkAnnouncement knownConfig acceptingImports remoteHalf (gossiperAt 106)))))) =
     [ProofAddCall (NewWaitingProof True (annSigs100 2))]"
proof -
  have h1: "msg remoteHalf = MsgAnnounceSignatures (annSigs100 2)"
    "msg localHalf = MsgAnnounceSignatures (annSigs100 1)"
    by (simp_all add: input_defs)
  have h2: "as_ShortChannelID (annSigs100 2) = chan100" "as_ShortChannelID (annSigs100 1) = chan100"
    by (simp_all add: input_defs)
  have h3: "isRemote localHalf = (\<not> isRemote remoteHalf)"
    by (simp add: input_defs)
  have h4: "\<not> isPremature (gossiperAt 106) chan100 (ProofMatureDelta knownConfig)"
    by (simp add: isPremature_def input_defs)
  have h5: "\<forall>h. Router_GetChannelByID knownConfig h chan100 = Inr (chanInfo100, None, None)"
    by (simp add: input_defs)
  have h6: "SerializeCompressed (peer remoteHalf) = SerializeCompressed (NodeKey1 chanInfo100) \<or>
            SerializeCompressed (peer remoteHalf) = SerializeCompressed (NodeKey2 chanInfo100)"
    by (simp add: input_defs)
  have h7: "True = (SerializeCompressed (peer localHalf) = SerializeCompressed (NodeKey1 chanInfo100))"
    by (simp add: input_defs)
  have h8: "True \<or> SerializeCompressed (peer localHalf) = SerializeCompressed (NodeKey2 chanInfo100)"
    by simp
  have h9: "\<forall>h x. DB_Add knownConfig h x = None" "\<forall>h k. DB_Get knownConfig h k = None"
    "\<forall>h k. DB_Remove knownConfig h k = None"
    by (simp_all add: input_defs)
  have h10: "NewWaitingProof True (annSigs100 2) = NewWaitingProof (isRemote remoteHalf) (annSigs100 2)"
    "NewWaitingProof False (annSigs100 1) = NewWaitingProof (isRemote localHalf) (annSigs100 1)"
    by (simp_all add: input_defs)
  have h11: "waitingProofs (gossiperAt 106)
      (OppositeKey acceptingImports (NewWaitingProof True (annSigs100 2))) = None"
    by (simp add: gossiperAt_def)
  have h12: "validateChannelAnn acceptingImports
     (fst (createChanAnnouncement acceptingImports
        (assembleDbProof True (annSigs100 1) (NewWaitingProof True (annSigs100 2)))
        chanInfo100 None None)) = None"
    by (simp add: input_defs)
  have h13: "\<forall>h. Router_AddProof knownConfig h chan100
      (assembleDbProof True (annSigs100 1) (NewWaitingProof True (annSigs100 2))) = None"
    by (simp add: input_defs)
  have e: "OppositeKey acceptingImports (NewWaitingProof False (annSigs100 1)) = (toUint64 chan100, True)"
    by (simp add: OppositeKey_def NewWaitingProof_def input_defs)
  show ?thesis
    using both_halves_one_AddProof[OF h1 h2 h3 h4 h5 h6 h7 h8 h9 h10 h11 refl h12 h13 refl refl]
    by (simp add: e)
qed

text \<open>
  C6. Both halves are at hand and the rebuilt announcement fails its check: the error is
  sent on the result channel, \<^verbatim>\<open>AddProof\<close> is not called, the store is neither added
  to nor removed from (it still holds the opposite half), the premature map and the
  height are as before, and the handler's batch is left as it was.
\<close>

theorem invalid_assembled_proof_mutates_nothing:
  assumes "msg nMsg = MsgAnnounceSignatures m"
    and "\<not> isPremature d (as_ShortChannelID m) (ProofMatureDelta cfg)"
    and "Router_GetChannelByID cfg (history d) (as_ShortChannelID m) = Inr (chanInfo, e1, e2)"
    and "isFirstNode = (SerializeCompressed (peer nMsg) = SerializeCompressed (NodeKey1 chanInfo))"
    and "isFirstNode \<or> SerializeCompressed (peer nMsg) = SerializeCompressed (NodeKey2 chanInfo)"
    and "p = NewWaitingProof (isRemote nMsg) m"
    and "DB_Get cfg (history d @ [GetChannelByIDCall (as_ShortChannelID m)]) (OppositeKey imp p) = None"
    and "waitingProofs d (OppositeKey imp p) = Some oppositeProof"
    and "createChanAnnouncement imp (assembleDbProof isFirstNode m oppositeProof) chanInfo e1 e2 =
           (chanAnn, e1Ann, e2Ann)"
    and "validateChannelAnn imp chanAnn = Some e"
    and "r = processNetworkAnnouncement cfg imp nMsg d"
  shows "fst r = [] \<and>
         outcomes (err nMsg) (newEvents d (snd r)) =
           [Some (ProofNotValid (ToUint64 imp (as_ShortChannelID m)) e)] \<and>
         calls RouterAddProof (newEvents d (snd r)) = [] \<and>
         calls StoreAdd (newEvents d (snd r)) = [] \<and>
         calls StoreRemove (newEvents d (snd r)) = [] \<and>
         waitingProofs (snd r) = waitingProofs d \<and>
         waitingProofs (snd r) (OppositeKey imp p) = Some oppositeProof \<and>
         prematureAnnouncements (snd r) = prematureAnnouncements d \<and>
         bestHeight (snd r) = bestHeight d \<and>
         networkHandlerStep cfg imp (NetworkMsgs nMsg) (d, announcements) =
           Some (snd r, announcements)"
proof -
  have r: "r = processAnnounceSignatures cfg imp nMsg m d"
    using assms(1,11) by (simp add: processNetworkAnnouncement_def)
  note eq = processAnnounceSignatures_invalid[OF assms(2-10)]
  show ?thesis
    unfolding r eq using assms(1,8)
    by (simp add: newEvents_def processNetworkAnnouncement_def eq addEmitted_def)
qed

theorem invalid_assembled_proof_mutates_nothing_witness:
  "waitingProofs halfStored (OppositeKey rejectingImports (NewWaitingProof False (annSigs100 1))) =
     Some (NewWaitingProof True (annSigs100 2)) \<and>
   validateChannelAnn rejectingImports
     (fst (createChanAnnouncement rejectingImports
        (assembleDbProof True (annSigs100 1) (NewWaitingProof True (annSigs100 2)))
        chanInfo100 None None)) = Some (ErrExternal 1) \<and>
   fst (processNetworkAnnouncement knownConfig rejectingImports localHalf halfStored) = [] \<and>
   outcomes 2 (newEvents halfStored
     (snd (processNetworkAnnouncement knownConfig rejectingImports localHalf halfStored))) =
     [Some (ProofNotValid (toUint64 chan100) (ErrExternal 1))] \<and>
   calls RouterAddProof (newEvents halfStored
     (snd (processNetworkAnnouncement knownConfig rejectingImports localHalf halfStored))) = [] \<and>
   waitingProofs (snd (processNetworkAnnouncement knownConfig rejectingImports localHalf halfStored)) =
     waitingProofs halfStored \<and>
   networkHandlerStep knownConfig rejectingImports (NetworkMsgs localHalf) (halfStored, emptyBatch) =
     Some (snd (processNetworkAnnouncement knownConfig rejectingImports localHalf halfStored),
           emptyBatch)"
proof -
  have h1: "msg localHalf = MsgAnnounceSignatures (annSigs100 1)"
    by (simp add: input_defs)
  have h2: "\<not> isPremature halfStored (as_ShortChannelID (annSigs100 1)) (ProofMatureDelta knownConfig)"
    by (simp add: halfStored_eq isPremature_def input_defs)
  have h3: "Router_GetChannelByID knownConfig (history halfStored) (as_ShortChannelID (annSigs100 1)) =
              Inr (chanInfo100, None, None)"
    by (simp add: input_defs)
  have h4: "True = (SerializeCompressed (peer localHalf) = SerializeCompressed (NodeKey1 chanInfo100))"
    by (simp add: input_defs)
  have h5: "True \<or> SerializeCompressed (peer localHalf) = SerializeCompressed (NodeKey2 chanInfo100)"
    by simp
  have h6: "NewWaitingProof False (annSigs100 1) = NewWaitingProof (isRemote localHalf) (annSigs100 1)"
    by (simp add: input_defs)
  have h7: "DB_Get knownConfig (history halfStored @ [GetChannelByIDCall (as_ShortChannelID (annSigs100 1))])
              (OppositeKey rejectingImports (NewWaitingProof False (annSigs100 1))) = None"
    by (simp add: input_defs)
  have h8: "waitingProofs halfStored (OppositeKey rejectingImports (NewWaitingProof False (annSigs100 1))) =
              Some (NewWaitingProof True (annSigs100 2))"
    by (simp add: halfStored_eq OppositeKey_def NewWaitingProof_def input_defs)
  have h9: "createChanAnnouncement rejectingImports
              (assembleDbProof True (annSigs100 1) (NewWaitingProof True (annSigs100 2)))
              chanInfo100 None None =
            (fst (createChanAnnouncement rejectingImports
                (assembleDbProof True (annSigs100 1) (NewWaitingProof True (annSigs100 2)))
                chanInfo100 None None), None, None)"
    by (simp add: input_defs)
  have h10: "validateChannelAnn rejectingImports
     (fst (createChanAnnouncement rejectingImports
        (assembleDbProof True (annSigs100 1) (NewWaitingProof True (annSigs100 2)))
        chanInfo100 None None)) = Some (ErrExternal 1)"
    by (simp add: input_defs)
  have e: "err localHalf = 2" "ToUint64 rejectingImports = toUint64"
    "as_ShortChannelID (annSigs100 1) = chan100"
    by (simp_all add: input_defs)
  show ?thesis
    using invalid_assembled_proof_mutates_nothing[OF h1 h2 h3 h4 h5 h6 h7 h8 h9 h10 refl,
        where announcements = emptyBatch] h8 h10
    by (simp add: e)
qed

text \<open>
  C10, the claim as stated fails: both halves arrived while the router did not know the
  channel and were stored as orphans; once the channel is known the remote half arrives
  again and the proof is assembled, added and the local half removed, but the store still
  holds the record under the remote half's own key.
\<close>

theorem full_proof_own_half_counterexample:
  "waitingProofs bothOrphaned (toUint64 chan100, False) = Some (NewWaitingProof False (annSigs100 1)) \<and>
   calls RouterAddProof (newEvents bothOrphaned
     (snd (processNetworkAnnouncement lateConfig acceptingImports remoteHalf bothOrphaned))) =
     [AddProofCall chan100 (assembleDbProof False (annSigs100 2) (NewWaitingProof False (annSigs100 1)))] \<and>
   calls StoreRemove (newEvents bothOrphaned
     (snd (processNetworkAnnouncement lateConfig acceptingImports remoteHalf bothOrphaned))) =
     [ProofRemoveCall (toUint64 chan100, False)] \<and>
   outcomes 1 (newEvents bothOrphaned
     (snd (processNetworkAnnouncement lateConfig acceptingImports remoteHalf bothOrphaned))) = [None] \<and>
   waitingProofs (snd (processNetworkAnnouncement lateConfig acceptingImports remoteHalf bothOrphaned))
     (toUint64 chan100, True) = Some (NewWaitingProof True (annSigs100 2))"
  unfolding bothOrphaned_eq
  by (simp add: run_defs input_defs newEvents_def)

text \<open>
  C10, amended. After a successful assembly the incoming half is not persisted and the
  record under the opposite key is removed; every other entry of the store is as before.
  So the store holds no record of the channel exactly when none was stored under the
  incoming half's own key beforehand.
\<close>

theorem full_proof_clears_opposite_half:
  assumes "msg nMsg = MsgAnnounceSignatures m"
    and "\<not> isPremature d (as_ShortChannelID m) (ProofMatureDelta cfg)"
    and "Router_GetChannelByID cfg (history d) (as_ShortChannelID m) = Inr (chanInfo, e1, e2)"
    and "isFirstNode = (SerializeCompressed (peer nMsg) = SerializeCompressed (NodeKey1 chanInfo))"
    and "isFirstNode \<or> SerializeCompressed (peer nMsg) = SerializeCompressed (NodeKey2 chanInfo)"
    and "p = NewWaitingProof (isRemote nMsg) m"
    and "DB_Get cfg (history d @ [GetChannelByIDCall (as_ShortChannelID m)]) (OppositeKey imp p) = None"
    and "waitingProofs d (OppositeKey imp p) = Some oppositeProof"
    and "dbProof = assembleDbProof isFirstNode m oppositeProof"
    and "createChanAnnouncement imp dbProof chanInfo e1 e2 = (chanAnn, e1Ann, e2Ann)"
    and "validateChannelAnn imp chanAnn = None"
    and "h3 = history d @ [GetChannelByIDCall (as_ShortChannelID m),
                ProofGetCall (OppositeKey imp p), ValidateChannelAnnCall chanAnn]"
    and "Router_AddProof cfg h3 (as_ShortChannelID m) dbProof = None"
    and "DB_Remove cfg (h3 @ [AddProofCall (as_ShortChannelID m) dbProof]) (OppositeKey imp p) = None"
    and "r = processNetworkAnnouncement cfg imp nMsg d"
  shows "calls RouterAddProof (newEvents d (snd r)) = [AddProofCall (as_ShortChannelID m) dbProof] \<and>
         calls StoreAdd (newEvents d (snd r)) = [] \<and>
         calls StoreRemove (newEvents d (snd r)) = [ProofRemoveCall (OppositeKey imp p)] \<and>
         waitingProofs (snd r) = (waitingProofs d)(OppositeKey imp p := None) \<and>
         waitingProofs (snd r) (OppositeKey imp p) = None \<and>
         waitingProofs (snd r) (Key imp p) = waitingProofs d (Key imp p)"
proof -
  have r: "r = processAnnounceSignatures cfg imp nMsg m d"
    using assms(1,15) by (simp add: processNetworkAnnouncement_def)
  note eq = processAnnounceSignatures_assembled(1)[OF assms(2-14)]
  show ?thesis
    unfolding r eq
    by (simp add: newEvents_def assms(12) Key_neq_OppositeKey)
qed

theorem full_proof_clears_opposite_half_witness:
  "waitingProofs halfStored (OppositeKey acceptingImports (NewWaitingProof False (annSigs100 1))) =
     Some (NewWaitingProof True (annSigs100 2)) \<and>
   calls RouterAddProof (newEvents halfStored
     (snd (processNetworkAnnouncement knownConfig acceptingImports localHalf halfStored))) =
     [AddProofCall chan100
        (assembleDbProof True (annSigs100 1) (NewWaitingProof True (annSigs100 2)))] \<and>
   calls StoreAdd (newEvents halfStored
     (snd (processNetworkAnnouncement knownConfig acceptingImports localHalf halfStored))) = [] \<and>
   waitingProofs (snd (processNetworkAnnouncement knownConfig acceptingImports localHalf halfStored))
     (toUint64 chan100, True) = None \<and>
   waitingProofs (snd (processNetworkAnnouncement knownConfig acceptingImports localHalf halfStored))
     (toUint64 chan100, False) = None"
proof -
  have h1: "msg localHalf = MsgAnnounceSignatures (annSigs100 1)"
    by (simp add: input_defs)
  have h2: "\<not> isPremature halfStored (as_ShortChannelID (annSigs100 1)) (ProofMatureDelta knownConfig)"
    by (simp add: halfStored_eq isPremature_def input_defs)
  have h3: "Router_GetChannelByID knownConfig (history halfStored) (as_ShortChannelID (annSigs100 1)) =
              Inr (chanInfo100, None, None)"
    by (simp add: input_defs)
  have h4: "True = (SerializeCompressed (peer localHalf) = SerializeCompressed (NodeKey1 chanInfo100))"
    by (simp add: input_defs)
  have h5: "True \<or> SerializeCompressed (peer localHalf) = SerializeCompressed (NodeKey2 chanInfo100)"
    by simp
  have h6: "NewWaitingProof False (annSigs100 1) = NewWaitingProof (isRemote localHalf) (annSigs100 1)"
    by (simp add: input_defs)
  have h7: "DB_Get knownConfig (history halfStored @ [GetChannelByIDCall (as_ShortChannelID (annSigs100 1))])
              (OppositeKey acceptingImports (NewWaitingProof False (annSigs100 1))) = None"
    by (simp add: input_defs)
  have h8: "waitingProofs halfStored (OppositeKey acceptingImports (NewWaitingProof False (annSigs100 1))) =
              Some (NewWaitingProof True (annSigs100 2))"
    by (simp add: halfStored_eq OppositeKey_def NewWaitingProof_def input_defs)
  have h9: "createChanAnnouncement acceptingImports
              (assembleDbProof True (annSigs100 1) (NewWaitingProof True (annSigs100 2)))
              chanInfo100 None None =
            (fst (createChanAnnouncement acceptingImports
                (assembleDbProof True (annSigs100 1) (NewWaitingProof True (annSigs100 2)))
                chanInfo100 None None), None, None)"
    by (simp add: input_defs)
  have h10: "validateChannelAnn acceptingImports
     (fst (createChanAnnouncement acceptingImports
        (assembleDbProof True (annSigs100 1) (NewWaitingProof True (annSigs100 2)))
        chanInfo100 None None)) = None"
    by (simp add: input_defs)
  have h11: "\<And>h. Router_AddProof knownConfig h (as_ShortChannelID (annSigs100 1))
      (assembleDbProof True (annSigs100 1) (NewWaitingProof True (annSigs100 2))) = None"
    by (simp add: input_defs)
  have h12: "\<And>h. DB_Remove knownConfig h
      (OppositeKey acceptingImports (NewWaitingProof False (annSigs100 1))) = None"
    by (simp add: input_defs)
  have e: "OppositeKey acceptingImports (NewWaitingProof False (annSigs100 1)) = (toUint64 chan100, True)"
    "Key acceptingImports (NewWaitingProof False (annSigs100 1)) = (toUint64 chan100, False)"
    "as_ShortChannelID (annSigs100 1) = chan100"
    "waitingProofs halfStored (toUint64 chan100, False) = None"
    by (simp_all add: halfStored_eq OppositeKey_def Key_def NewWaitingProof_def input_defs)
  show ?thesis
    using full_proof_clears_opposite_half[OF h1 h2 h3 h4 h5 h6 h7 h8 refl h9 h10 refl h11 h12 refl] h8
    by (simp add: e)
qed

section \<open>Channel updates: the key the signature is checked against\<close>

text \<open>
  C7. For a channel update that passes the chain check and the premature gate and whose
  channel the router knows: with flags 0 the signature is checked against the channel's
  first node key, with flags 1 against the second (the key indexed by \<^verbatim>\<open>flags & 1\<close>),
  and that is the only signature check made; any other flags value sends the error
  \<open>UnknownFlags\<close> on the result channel right after the lookup. With such a flags value
  \<^verbatim>\<open>UpdateEdge\<close> is never called and no signature is checked, whatever the rest of the
  message.
\<close>

theorem channelUpdate_key_by_flags:
  assumes "msg nMsg = MsgChannelUpdate m"
    and "r = processNetworkAnnouncement cfg imp nMsg d"
  shows "(cu_Flags m \<noteq> 0 \<and> cu_Flags m \<noteq> 1 \<longrightarrow>
            calls RouterUpdateEdge (newEvents d (snd r)) = [] \<and>
            calls Validation (newEvents d (snd r)) = []) \<and>
         (cu_ChainHash m = ChainHash cfg \<and>
          \<not> (isRemote nMsg \<and> isPremature d (cu_ShortChannelID m) 0) \<and>
          Router_GetChannelByID cfg (history d) (cu_ShortChannelID m) = Inr (chanInfo, e1, e2) \<longrightarrow>
            (cu_Flags m = 0 \<longrightarrow>
               calls Validation (newEvents d (snd r)) =
                 [ValidateChannelUpdateAnnCall (NodeKey1 chanInfo) m]) \<and>
            (cu_Flags m = 1 \<longrightarrow>
               calls Validation (newEvents d (snd r)) =
                 [ValidateChannelUpdateAnnCall (NodeKey2 chanInfo) m]) \<and>
            (cu_Flags m = 0 \<or> cu_Flags m = 1 \<longrightarrow>
               calls Validation (newEvents d (snd r)) =
                 [ValidateChannelUpdateAnnCall
                    (if cu_Flags m AND 1 = 0 then NodeKey1 chanInfo else NodeKey2 chanInfo) m]) \<and>
            (cu_Flags m \<noteq> 0 \<and> cu_Flags m \<noteq> 1 \<longrightarrow>
               r = ([], errSend nMsg
                          (Some (UnknownFlags (cu_Flags m) (ToUint64 imp (cu_ShortChannelID m))))
                          (logCall (GetChannelByIDCall (cu_ShortChannelID m)) d))))"
proof -
  have r: "r = processChannelUpdate cfg imp nMsg m d"
    using assms by (simp add: processNetworkAnnouncement_def)
  have 1: "calls RouterUpdateEdge (newEvents d (snd r)) = [] \<and>
           calls Validation (newEvents d (snd r)) = []"
    if "cu_Flags m \<noteq> 0" "cu_Flags m \<noteq> 1"
    unfolding r processChannelUpdate_def Let_def newEvents_def appendPremature_def
    using that by (simp split: sum.split prod.split)
  have 2: "calls Validation (newEvents d (snd r)) =
             [ValidateChannelUpdateAnnCall (NodeKey1 chanInfo) m]"
    if "cu_ChainHash m = ChainHash cfg"
      "\<not> (isRemote nMsg \<and> isPremature d (cu_ShortChannelID m) 0)"
      "Router_GetChannelByID cfg (history d) (cu_ShortChannelID m) = Inr (chanInfo, e1, e2)"
      "cu_Flags m = 0"
  proof -
    have g: "(isRemote nMsg \<and> isPremature d (cu_ShortChannelID m) 0) = False"
      using that(2) by simp
    show ?thesis
      unfolding r processChannelUpdate_def Let_def newEvents_def
      by (simp add: g that(1,3,4) split: option.split)
  qed
  have 3: "calls Validation (newEvents d (snd r)) =
             [ValidateChannelUpdateAnnCall (NodeKey2 chanInfo) m]"
    if "cu_ChainHash m = ChainHash cfg"
      "\<not> (isRemote nMsg \<and> isPremature d (cu_ShortChannelID m) 0)"
      "Router_GetChannelByID cfg (history d) (cu_ShortChannelID m) = Inr (chanInfo, e1, e2)"
      "cu_Flags m = 1"
  proof -
    have g: "(isRemote nMsg \<and> isPremature d (cu_ShortChannelID m) 0) = False"
      using that(2) by simp
    show ?thesis
      unfolding r processChannelUpdate_def Let_def newEvents_def
      by (simp add: g that(1,3,4) split: option.split)
  qed
  have 4: "r = ([], errSend nMsg
                  (Some (UnknownFlags (cu_Flags m) (ToUint64 imp (cu_ShortChannelID m))))
                  (logCall (GetChannelByIDCall (cu_ShortChannelID m)) d))"
    if "cu_ChainHash m = ChainHash cfg"
      "\<not> (isRemote nMsg \<and> isPremature d (cu_ShortChannelID m) 0)"
      "Router_GetChannelByID cfg (history d) (cu_ShortChannelID m) = Inr (chanInfo, e1, e2)"
      "cu_Flags m \<noteq> 0" "cu_Flags m \<noteq> 1"
  proof -
    have g: "(isRemote nMsg \<and> isPremature d (cu_ShortChannelID m) 0) = False"
      using that(2) by simp
    show ?thesis
      unfolding r processChannelUpdate_def Let_def
      by (simp add: g that(1,3,4,5))
  qed
  show ?thesis using 1 2 3 4 by auto
qed

theorem channelUpdate_key_by_flags_witness:
  "calls Validation (newEvents (gossiperAt 100) (snd (processNetworkAnnouncement knownConfig
      acceptingImports (envelope carol (MsgChannelUpdate (chanUpd100 ourChain 0)) True 0)
      (gossiperAt 100)))) = [ValidateChannelUpdateAnnCall alice (chanUpd100 ourChain 0)] \<and>
   calls Validation (newEvents (gossiperAt 100) (snd (processNetworkAnnouncement knownConfig
      acceptingImports (envelope carol (MsgChannelUpdate (chanUpd100 ourChain 1)) True 0)
      (gossiperAt 100)))) = [ValidateChannelUpdateAnnCall bob (chanUpd100 ourChain 1)] \<and>
   processNetworkAnnouncement knownConfig acceptingImports
      (envelope carol (MsgChannelUpdate (chanUpd100 ourChain 2)) True 0) (gossiperAt 100) =
     ([], errSend (envelope carol (MsgChannelUpdate (chanUpd100 ourChain 2)) True 0)
            (Some (UnknownFlags 2 (toUint64 chan100)))
            (logCall (GetChannelByIDCall chan100) (gossiperAt 100))) \<and>
   calls RouterUpdateEdge (newEvents (gossiperAt 100) (snd (processNetworkAnnouncement knownConfig
      acceptingImports (envelope carol (MsgChannelUpdate (chanUpd100 ourChain 2)) True 0)
      (gossiperAt 100)))) = []"
proof -
  have m: "\<And>fl. msg (envelope carol (MsgChannelUpdate (chanUpd100 ourChain fl)) True 0) =
                  MsgChannelUpdate (chanUpd100 ourChain fl)"
    by (simp add: envelope_def)
  have c: "\<And>fl. cu_ChainHash (chanUpd100 ourChain fl) = ChainHash knownConfig"
    by (simp add: chanUpd100_def knownConfig_def)
  have g: "\<And>fl. \<not> (isRemote (envelope carol (MsgChannelUpdate (chanUpd100 ourChain fl)) True 0) \<and>
                     isPremature (gossiperAt 100) (cu_ShortChannelID (chanUpd100 ourChain fl)) 0)"
    by (simp add: isPremature_def chanUpd100_def chan100_def gossiperAt_def)
  have k: "\<And>fl. Router_GetChannelByID knownConfig (history (gossiperAt 100))
                    (cu_ShortChannelID (chanUpd100 ourChain fl)) = Inr (chanInfo100, None, None)"
    by (simp add: knownConfig_def chanUpd100_def)
  have g': "\<not> isPremature (gossiperAt 100) chan100 0"
    by (simp add: isPremature_def chan100_def gossiperAt_def)
  have k': "Router_GetChannelByID knownConfig (history (gossiperAt 100)) chan100 =
              Inr (chanInfo100, None, None)"
    by (simp add: knownConfig_def)
  have f: "\<And>fl. cu_Flags (chanUpd100 ourChain fl) = fl"
    by (simp add: chanUpd100_def)
  have n: "NodeKey1 chanInfo100 = alice" "NodeKey2 chanInfo100 = bob"
    by (simp_all add: chanInfo100_def)
  have s: "cu_ShortChannelID (chanUpd100 ourChain 2) = chan100"
    "ToUint64 acceptingImports = toUint64"
    by (simp_all add: chanUpd100_def acceptingImports_def)
  show ?thesis
    using channelUpdate_key_by_flags[OF m[of 0] refl, where cfg = knownConfig
            and imp = acceptingImports and d = "gossiperAt 100" and chanInfo = chanInfo100
            and ?e1.0 = None and ?e2.0 = None]
          channelUpdate_key_by_flags[OF m[of 1] refl, where cfg = knownConfig
            and imp = acceptingImports and d = "gossiperAt 100" and chanInfo = chanInfo100
            and ?e1.0 = None and ?e2.0 = None]
          channelUpdate_key_by_flags[OF m[of 2] refl, where cfg = knownConfig
            and imp = acceptingImports and d = "gossiperAt 100" and chanInfo = chanInfo100
            and ?e1.0 = None and ?e2.0 = None]
    by (simp add: c g g' k k' f n s)
qed

section \<open>Local announcements and signature checks\<close>

text \<open>
  C2, the claim as stated fails for channel updates: a local \<^verbatim>\<open>ChannelUpdate\<close> on our
  chain, for a known channel, with flags 0, whose signature check fails, is rejected (the
  check is made, the error is sent, \<^verbatim>\<open>UpdateEdge\<close> is not called), while the same update
  with a signature that checks is admitted.
\<close>

theorem local_update_signature_counterexample:
  "\<not> isRemote (envelope alice (MsgChannelUpdate (chanUpd100 ourChain 0)) False 0) \<and>
   validateChannelUpdateAnn rejectingImports alice (chanUpd100 ourChain 0) = Some (ErrExternal 1) \<and>
   processNetworkAnnouncement knownConfig rejectingImports
     (envelope alice (MsgChannelUpdate (chanUpd100 ourChain 0)) False 0) (gossiperAt 100) =
     ([], (gossiperAt 100)\<lparr>history :=
             [GetChannelByIDCall chan100,
              ValidateChannelUpdateAnnCall alice (chanUpd100 ourChain 0),
              ErrChanSend 0 (Some (UnableToValidateChannelUpdateAnn chan100 (ErrExternal 1)))]\<rparr>) \<and>
   calls RouterUpdateEdge (history (snd (processNetworkAnnouncement knownConfig acceptingImports
     (envelope alice (MsgChannelUpdate (chanUpd100 ourChain 0)) False 0) (gossiperAt 100)))) \<noteq> [] \<and>
   outcomes 0 (history (snd (processNetworkAnnouncement knownConfig acceptingImports
     (envelope alice (MsgChannelUpdate (chanUpd100 ourChain 0)) False 0) (gossiperAt 100)))) = [None]"
  by (simp add: processNetworkAnnouncement_def processChannelUpdate_def isPremature_def
      logCall_def errSend_def Let_def envelope_def chanUpd100_def chan100_def gossiperAt_def
      knownConfig_def acceptingImports_def rejectingImports_def chanInfo100_def ourChain_def)

text \<open>
  C2, amended. For a local envelope: a node announcement and a channel announcement are
  never signature-checked, and are admitted (handed to \<^verbatim>\<open>AddNode\<close>, to \<^verbatim>\<open>AddEdge\<close>
  without a proof) when the remaining steps pass, whatever the signature check would say;
  the chain check still applies to a local channel announcement and a local channel
  update (a foreign chain hash drops the message); a local channel update is still
  signature-checked against the key its flags select, and a failed check rejects it.
\<close>

theorem local_origin_signature_checks:
  assumes "\<not> isRemote nMsg"
    and "r = processNetworkAnnouncement cfg imp nMsg d"
    and "key = (if cu_Flags cu = 0 then NodeKey1 chanInfo else NodeKey2 chanInfo)"
  shows
    "(msg nMsg = MsgNodeAnnouncement na \<longrightarrow>
        calls Validation (newEvents d (snd r)) = [] \<and>
        ((\<forall>node. Router_AddNode cfg (history d) node = None) \<longrightarrow>
           fst r = [MsgNodeAnnouncement na] \<and>
           length (calls RouterAddNode (newEvents d (snd r))) = 1 \<and>
           outcomes (err nMsg) (newEvents d (snd r)) = [None])) \<and>
     (msg nMsg = MsgChannelAnnouncement ca \<longrightarrow>
        calls Validation (newEvents d (snd r)) = [] \<and>
        (ca_ChainHash ca \<noteq> ChainHash cfg \<longrightarrow> r = ([], d)) \<and>
        (ca_ChainHash ca = ChainHash cfg \<and>
         Features_Encode imp (ca_Features ca) = Inr featureBuf \<and>
         (\<forall>edge. Router_AddEdge cfg (history d) edge = None) \<longrightarrow>
           calls RouterAddEdge (newEvents d (snd r)) =
             [AddEdgeCall \<lparr>ChannelID = ToUint64 imp (ca_ShortChannelID ca),
                           info_ChainHash = ca_ChainHash ca,
                           NodeKey1 = ca_NodeID1 ca, NodeKey2 = ca_NodeID2 ca,
                           BitcoinKey1 = ca_BitcoinKey1 ca, BitcoinKey2 = ca_BitcoinKey2 ca,
                           AuthProof = None, info_Features = featureBuf\<rparr>] \<and>
           outcomes (err nMsg) (newEvents d (snd r)) = [None])) \<and>
     (msg nMsg = MsgChannelUpdate cu \<longrightarrow>
        (cu_ChainHash cu \<noteq> ChainHash cfg \<longrightarrow> r = ([], d)) \<and>
        (cu_ChainHash cu = ChainHash cfg \<and>
         Router_GetChannelByID cfg (history d) (cu_ShortChannelID cu) = Inr (chanInfo, e1, e2) \<and>
         (cu_Flags cu = 0 \<or> cu_Flags cu = 1) \<longrightarrow>
           calls Validation (newEvents d (snd r)) = [ValidateChannelUpdateAnnCall key cu] \<and>
           (validateChannelUpdateAnn imp key cu = Some e \<longrightarrow>
              fst r = [] \<and>
              calls RouterUpdateEdge (newEvents d (snd r)) = [] \<and>
              outcomes (err nMsg) (newEvents d (snd r)) =
                [Some (UnableToValidateChannelUpdateAnn (cu_ShortChannelID cu) e)])))"
proof -
  have na: "calls Validation (newEvents d (snd r)) = [] \<and>
        ((\<forall>node. Router_AddNode cfg (history d) node = None) \<longrightarrow>
           fst r = [MsgNodeAnnouncement na] \<and>
           length (calls RouterAddNode (newEvents d (snd r))) = 1 \<and>
           outcomes (err nMsg) (newEvents d (snd r)) = [None])"
    if "msg nMsg = MsgNodeAnnouncement na"
    using that assms(1)
    by (simp add: assms(2) processNetworkAnnouncement_def processNodeAnnouncement_def Let_def
          newEvents_def split: option.split)
  have ca1: "calls Validation (newEvents d (snd r)) = []"
    if "msg nMsg = MsgChannelAnnouncement ca"
    using that assms(1)
    by (simp add: assms(2) processNetworkAnnouncement_def processChannelAnnouncement_def Let_def
          newEvents_def split: option.split sum.split)
  have ca2: "r = ([], d)"
    if "msg nMsg = MsgChannelAnnouncement ca" "ca_ChainHash ca \<noteq> ChainHash cfg"
    using that
    by (simp add: assms(2) processNetworkAnnouncement_def processChannelAnnouncement_def)
  have ca3: "calls RouterAddEdge (newEvents d (snd r)) =
             [AddEdgeCall \<lparr>ChannelID = ToUint64 imp (ca_ShortChannelID ca),
                           info_ChainHash = ca_ChainHash ca,
                           NodeKey1 = ca_NodeID1 ca, NodeKey2 = ca_NodeID2 ca,
                           BitcoinKey1 = ca_BitcoinKey1 ca, BitcoinKey2 = ca_BitcoinKey2 ca,
                           AuthProof = None, info_Features = featureBuf\<rparr>] \<and>
           outcomes (err nMsg) (newEvents d (snd r)) = [None]"
    if "msg nMsg = MsgChannelAnnouncement ca" "ca_ChainHash ca = ChainHash cfg"
      "Features_Encode imp (ca_Features ca) = Inr featureBuf"
      "\<forall>edge. Router_AddEdge cfg (history d) edge = None"
    using that assms(1)
    by (simp add: assms(2) processNetworkAnnouncement_def processChannelAnnouncement_def Let_def
          newEvents_def)
  have cu1: "r = ([], d)"
    if "msg nMsg = MsgChannelUpdate cu" "cu_ChainHash cu \<noteq> ChainHash cfg"
    using that
    by (simp add: assms(2) processNetworkAnnouncement_def processChannelUpdate_def)
  have cu2: "calls Validation (newEvents d (snd r)) = [ValidateChannelUpdateAnnCall key cu] \<and>
           (validateChannelUpdateAnn imp key cu = Some e \<longrightarrow>
              fst r = [] \<and>
              calls RouterUpdateEdge (newEvents d (snd r)) = [] \<and>
              outcomes (err nMsg) (newEvents d (snd r)) =
                [Some (UnableToValidateChannelUpdateAnn (cu_ShortChannelID cu) e)])"
    if "msg nMsg = MsgChannelUpdate cu" "cu_ChainHash cu = ChainHash cfg"
      "Router_GetChannelByID cfg (history d) (cu_ShortChannelID cu) = Inr (chanInfo, e1, e2)"
      "cu_Flags cu = 0 \<or> cu_Flags cu = 1"
    using that(4)
  proof
    assume "cu_Flags cu = 0"
    thus ?thesis using that(1,2,3) assms(1)
      by (simp add: assms(2,3) processNetworkAnnouncement_def processChannelUpdate_def Let_def
            newEvents_def split: option.split)
  next
    assume "cu_Flags cu = 1"
    thus ?thesis using that(1,2,3) assms(1)
      by (simp add: assms(2,3) processNetworkAnnouncement_def processChannelUpdate_def Let_def
            newEvents_def split: option.split)
  qed
  show ?thesis using na ca1 ca2 ca3 cu1 cu2 by blast
qed

theorem local_origin_signature_checks_witness:
  "validateNodeAnn rejectingImports (nodeAnn 5) = Some (ErrExternal 1) \<and>
   fst (processNetworkAnnouncement knownConfig rejectingImports
     (envelope alice (MsgNodeAnnouncement (nodeAnn 5)) False 0) (gossiperAt 100)) =
     [MsgNodeAnnouncement (nodeAnn 5)] \<and>
   calls Validation (newEvents (gossiperAt 100) (snd (processNetworkAnnouncement knownConfig
     rejectingImports (envelope alice (MsgNodeAnnouncement (nodeAnn 5)) False 0) (gossiperAt 100)))) = [] \<and>
   validateChannelAnn rejectingImports (chanAnn100 ourChain) = Some (ErrExternal 1) \<and>
   length (calls RouterAddEdge (newEvents (gossiperAt 100) (snd (processNetworkAnnouncement knownConfig
     rejectingImports (envelope alice (MsgChannelAnnouncement (chanAnn100 ourChain)) False 0)
     (gossiperAt 100))))) = 1 \<and>
   outcomes 0 (newEvents (gossiperAt 100) (snd (processNetworkAnnouncement knownConfig
     rejectingImports (envelope alice (MsgChannelAnnouncement (chanAnn100 ourChain)) False 0)
     (gossiperAt 100)))) = [None] \<and>
   processNetworkAnnouncement knownConfig rejectingImports
     (envelope alice (MsgChannelAnnouncement (chanAnn100 foreignChain)) False 0) (gossiperAt 100) =
     ([], gossiperAt 100) \<and>
   processNetworkAnnouncement knownConfig rejectingImports
     (envelope alice (MsgChannelUpdate (chanUpd100 foreignChain 0)) False 0) (gossiperAt 100) =
     ([], gossiperAt 100) \<and>
   validateChannelUpdateAnn rejectingImports alice (chanUpd100 ourChain 0) = Some (ErrExternal 1) \<and>
   calls Validation (newEvents (gossiperAt 100) (snd (processNetworkAnnouncement knownConfig
     rejectingImports (envelope alice (MsgChannelUpdate (chanUpd100 ourChain 0)) False 0)
     (gossiperAt 100)))) = [ValidateChannelUpdateAnnCall alice (chanUpd100 ourChain 0)] \<and>
   calls RouterUpdateEdge (newEvents (gossiperAt 100) (snd (processNetworkAnnouncement knownConfig
     rejectingImports (envelope alice (MsgChannelUpdate (chanUpd100 ourChain 0)) False 0)
     (gossiperAt 100)))) = [] \<and>
   outcomes 0 (newEvents (gossiperAt 100) (snd (processNetworkAnnouncement knownConfig
     rejectingImports (envelope alice (MsgChannelUpdate (chanUpd100 ourChain 0)) False 0)
     (gossiperAt 100)))) = [Some (UnableToValidateChannelUpdateAnn chan100 (ErrExternal 1))]"
proof -
  have l: "\<And>m. \<not> isRemote (envelope alice m False 0)" "\<And>m. msg (envelope alice m False 0) = m"
    "\<And>m. err (envelope alice m False 0) = 0"
    by (simp_all add: envelope_def)
  have v: "validateNodeAnn rejectingImports (nodeAnn 5) = Some (ErrExternal 1)"
    "validateChannelAnn rejectingImports (chanAnn100 ourChain) = Some (ErrExternal 1)"
    "validateChannelUpdateAnn rejectingImports alice (chanUpd100 ourChain 0) = Some (ErrExternal 1)"
    "Features_Encode rejectingImports (ca_Features (chanAnn100 ourChain)) = Inr []"
    by (simp_all add: rejectingImports_def acceptingImports_def chanAnn100_def)
  have c: "\<forall>node. Router_AddNode knownConfig (history (gossiperAt 100)) node = None"
    "\<forall>edge. Router_AddEdge knownConfig (history (gossiperAt 100)) edge = None"
    "Router_GetChannelByID knownConfig (history (gossiperAt 100)) chan100 =
       Inr (chanInfo100, None, None)"
    "ca_ChainHash (chanAnn100 ourChain) = ChainHash knownConfig"
    "ca_ChainHash (chanAnn100 foreignChain) \<noteq> ChainHash knownConfig"
    "cu_ChainHash (chanUpd100 ourChain 0) = ChainHash knownConfig"
    "cu_ChainHash (chanUpd100 foreignChain 0) \<noteq> ChainHash knownConfig"
    "cu_Flags (chanUpd100 ourChain 0) = 0"
    "cu_ShortChannelID (chanUpd100 ourChain 0) = chan100"
    "NodeKey1 chanInfo100 = alice"
    by (simp_all add: knownConfig_def chanUpd100_def chanAnn100_def ourChain_def foreignChain_def
          chanInfo100_def)
  show ?thesis
    using local_origin_signature_checks[OF l(1)[of "MsgNodeAnnouncement (nodeAnn 5)"] refl refl,
            where na = "nodeAnn 5"
              and cfg = knownConfig and imp = rejectingImports and d = "gossiperAt 100"]
          local_origin_signature_checks[OF l(1)[of "MsgChannelAnnouncement (chanAnn100 ourChain)"] refl refl,
            where ca = "chanAnn100 ourChain"
              and featureBuf = "[]"
              and cfg = knownConfig and imp = rejectingImports and d = "gossiperAt 100"]
          local_origin_signature_checks[OF l(1)[of "MsgChannelAnnouncement (chanAnn100 foreignChain)"] refl refl,
            where ca = "chanAnn100 foreignChain"
              and cfg = knownConfig and imp = rejectingImports and d = "gossiperAt 100"]
          local_origin_signature_checks[OF l(1)[of "MsgChannelUpdate (chanUpd100 foreignChain 0)"] refl refl,
            where cu = "chanUpd100 foreignChain 0"
              and cfg = knownConfig and imp = rejectingImports and d = "gossiperAt 100"]
          local_origin_signature_checks[OF l(1)[of "MsgChannelUpdate (chanUpd100 ourChain 0)"] refl refl,
            where cu = "chanUpd100 ourChain 0" and chanInfo = chanInfo100
              and ?e1.0 = None and ?e2.0 = None and e = "ErrExternal 1"
              and cfg = knownConfig and imp = rejectingImports and d = "gossiperAt 100"]
    by (simp add: l v c)
qed

section \<open>Premature channel announcements and block epochs\<close>

lemma prematureAt_appendPremature:
  "prematureAt (appendPremature k n d) k' = (if k' = k then prematureAt d k @ [n] else prematureAt d k')"
  by (simp add: prematureAt_def appendPremature_def)

lemma history_appendPremature [simp]: "history (appendPremature k n d) = history d"
  and bestHeight_appendPremature [simp]: "bestHeight (appendPremature k n d) = bestHeight d"
  by (simp_all add: appendPremature_def)

lemma delivers_bestHeight: "delivers n d d' \<Longrightarrow> bestHeight d' = bestHeight d"
  by (simp add: delivers_def)

lemma quiet_rews:
  "quiet d d = True"
  "kindOf ev \<noteq> ResultSend \<Longrightarrow> quiet d d1 \<Longrightarrow> quiet d (logCall ev d1) = True"
  "quiet d d1 \<Longrightarrow> delivers n d (errSend n e d1) = True"
  by (simp_all add: quiet_refl quiet_logCall quiet_errSend)

lemma processNodeAnnouncement_delivers:
  "delivers nMsg d (snd (processNodeAnnouncement cfg imp nMsg m d))"
  unfolding processNodeAnnouncement_def Let_def
  by (simp add: quiet_rews split: option.split)

lemma processChannelAnnouncement_shape:
  "snd (processChannelAnnouncement cfg imp nMsg m d) = d \<or>
   snd (processChannelAnnouncement cfg imp nMsg m d) =
     appendPremature (BlockHeight (ca_ShortChannelID m)) nMsg d \<or>
   delivers nMsg d (snd (processChannelAnnouncement cfg imp nMsg m d))"
  unfolding processChannelAnnouncement_def Let_def
  by (simp add: quiet_rews split: option.split sum.split)

lemma processChannelUpdate_shape:
  "snd (processChannelUpdate cfg imp nMsg m d) = d \<or>
   snd (processChannelUpdate cfg imp nMsg m d) =
     appendPremature (BlockHeight (cu_ShortChannelID m)) nMsg d \<or>
   delivers nMsg d (snd (processChannelUpdate cfg imp nMsg m d))"
  unfolding processChannelUpdate_def Let_def
  by (simp add: quiet_rews split: option.split sum.split prod.split)

lemma processAnnounceSignatures_shape:
  "snd (processAnnounceSignatures cfg imp nMsg m d) =
     appendPremature (BlockHeight (as_ShortChannelID m) + ProofMatureDelta cfg) nMsg d \<or>
   delivers nMsg d (snd (processAnnounceSignatures cfg imp nMsg m d))"
proof (cases "isPremature d (as_ShortChannelID m) (ProofMatureDelta cfg)")
  case True
  then show ?thesis by (simp add: processAnnounceSignatures_def)
next
  case False
  then show ?thesis using processAnnounceSignatures_mature by blast
qed

lemma processNetworkAnnouncement_shape:
  "snd (processNetworkAnnouncement cfg imp nMsg d) = d \<or>
   (\<exists>k. snd (processNetworkAnnouncement cfg imp nMsg d) = appendPremature k nMsg d) \<or>
   delivers nMsg d (snd (processNetworkAnnouncement cfg imp nMsg d))"
proof (cases "msg nMsg")
  case (MsgChannelAnnouncement m)
  then show ?thesis
    using processChannelAnnouncement_shape[of cfg imp nMsg m d]
    by (auto simp: processNetworkAnnouncement_def)
next
  case (MsgChannelUpdate m)
  then show ?thesis
    using processChannelUpdate_shape[of cfg imp nMsg m d]
    by (auto simp: processNetworkAnnouncement_def)
next
  case (MsgNodeAnnouncement m)
  then show ?thesis
    using processNodeAnnouncement_delivers[of nMsg d cfg imp m]
    by (simp add: processNetworkAnnouncement_def)
next
  case (MsgAnnounceSignatures m)
  then show ?thesis
    using processAnnounceSignatures_shape[of cfg imp nMsg m d]
    by (auto simp: processNetworkAnnouncement_def)
next
  case (MsgOther x)
  then show ?thesis
    by (simp add: processNetworkAnnouncement_def quiet_errSend quiet_refl)
qed

text \<open>
  \<^verbatim>\<open>processNetworkAnnouncement\<close> leaves the best height as it is. So a goroutine that
  loads the best height and goes on with no step of the supervisor in between does what
  \<^verbatim>\<open>processNetworkAnnouncement\<close> does on the gossiper it found.
\<close>

lemma processNetworkAnnouncement_bestHeight:
  "bestHeight (snd (processNetworkAnnouncement cfg imp nMsg d)) = bestHeight d"
  using processNetworkAnnouncement_shape[of cfg imp nMsg d] delivers_bestHeight
  by (elim disjE exE) auto

lemma workerProcess_at_once:
  "workerProcess cfg imp nMsg (bestHeight d) d = processNetworkAnnouncement cfg imp nMsg d"
proof -
  have same: "d\<lparr>bestHeight := bestHeight d\<rparr> = d" by simp
  obtain em d' where r: "processNetworkAnnouncement cfg imp nMsg d = (em, d')"
    by (cases "processNetworkAnnouncement cfg imp nMsg d")
  have "bestHeight d' = bestHeight d"
    using processNetworkAnnouncement_bestHeight[of cfg imp nMsg d] r by simp
  hence "d'\<lparr>bestHeight := bestHeight d\<rparr> = d'" by (cases d') simp
  thus ?thesis by (simp add: workerProcess_def same r)
qed

text \<open>
  C5: a remote channel announcement for block height H, received while the best height
  is below H, is to be processed exactly once after a block epoch with height at least H
  is observed, never zero times and never more than once. The comment on the field
  \<^verbatim>\<open>prematureAnnouncements\<close> says the same of the code: premature messages are processed
  once the chain tip extends to or past the premature height. The code does otherwise.
  An epoch re-processes the announcements held under its own height only, so:

  \<^item> run \<open>overtaken\<close>: the goroutine of the announcement (height 100) reads the best height
    99, the epoch of height 100 is handled (nothing is held under 100 yet), and only then
    the goroutine appends the announcement under 100. After the epochs of heights 100, 101
    and 102 no call was made, nothing was sent on the result channel, nothing is in the
    batch, and the announcement is still held under 100;
  \<^item> run \<open>skipped\<close>: the announcement is held under 100 in time, and the epochs that
    follow are those of heights 101 and 102. The end is the same.

  In run \<open>inTime\<close> the announcement is held under 100 before the epoch of height 100
  arrives, and that epoch processes it: one check, one \<^verbatim>\<open>AddEdge\<close>, one result sent.
\<close>

theorem premature_announcement_stranded:
  "outcomeOf 100 (runSystem knownConfig acceptingImports 10 overtaken startAt99) =
     Some ([], [prematureAnn], 102, 0, [Finished]) \<and>
   outcomeOf 100 (runSystem knownConfig acceptingImports 10 skipped startAt99) =
     Some ([], [prematureAnn], 102, 0, [Finished]) \<and>
   outcomeOf 100 (runSystem knownConfig acceptingImports 10 inTime startAt99) =
     Some ([ValidateChannelAnnCall (chanAnn100 ourChain), AddEdgeCall edge100, ErrChanSend 0 None],
           [], 101, 1, [Finished]) \<and>
   msg prematureAnn = MsgChannelAnnouncement (chanAnn100 ourChain) \<and> isRemote prematureAnn \<and>
   err prematureAnn = 0 \<and> BlockHeight (ca_ShortChannelID (chanAnn100 ourChain)) = 100"
  by (simp add: outcomeOf_def overtaken_def skipped_def inTime_def startAt99_def
      workerProcess_def mustWait_def inFlight_def numAnnouncements_def reset_def
      processNetworkAnnouncement_def processChannelAnnouncement_def isPremature_def
      appendPremature_def prematureAt_def addEmitted_def logCall_def errSend_def Let_def edge100_def
      prematureAnn_def envelope_def chanAnn100_def chan100_def ourChain_def gossiperAt_def
      knownConfig_def acceptingImports_def emptyBatch_def alice_def bob_def carol_def)

end
